theory Spec2Isabelle
  imports Main "HOL-Library.AList"
begin

section \<open>Strings\<close>

text \<open>
  A JavaScript string is modelled as a \<^typ>\<open>string\<close>; a character stands for one code unit
  below 256.  On these code units \<open>toLowerCase\<close> maps \<open>A\<close>..\<open>Z\<close> and the Latin-1 capitals
  (192..222 except 215) to the code unit 32 above, and the white space of \<open>trim\<close> and of
  the regular expression class \<open>\s\<close> is 9..13, 32 and 160.
\<close>

definition toLowerChar :: "char \<Rightarrow> char" where
  "toLowerChar c =
     (let n = (of_char c :: nat)
      in if (65 \<le> n \<and> n \<le> 90) \<or> (192 \<le> n \<and> n \<le> 222 \<and> n \<noteq> 215)
         then char_of (n + 32) else c)"

definition toLowerCase :: "string \<Rightarrow> string" where
  "toLowerCase s = map toLowerChar s"

definition isSpace :: "char \<Rightarrow> bool" where
  "isSpace c = ((of_char c :: nat) \<in> {9, 10, 11, 12, 13, 32, 160})"

definition trim :: "string \<Rightarrow> string" where
  "trim s = rev (dropWhile isSpace (rev (dropWhile isSpace s)))"

text \<open>\<open>s.startsWith(t)\<close> and \<open>s.includes(t)\<close>.\<close>

fun startsWith :: "string \<Rightarrow> string \<Rightarrow> bool" where
  "startsWith s [] = True"
| "startsWith [] (d # t) = False"
| "startsWith (c # s) (d # t) = (c = d \<and> startsWith s t)"

fun includesStr :: "string \<Rightarrow> string \<Rightarrow> bool" where
  "includesStr [] t = startsWith [] t"
| "includesStr (c # s) t = (startsWith (c # s) t \<or> includesStr s t)"

text \<open>\<open>s.substring(0, n)\<close> for a non-negative \<open>n\<close>.\<close>

definition substring0 :: "string \<Rightarrow> nat \<Rightarrow> string" where
  "substring0 s n = take n s"

text \<open>\<open>xs.join(sep)\<close> on an array of strings.\<close>

fun join :: "string \<Rightarrow> string list \<Rightarrow> string" where
  "join sep [] = []"
| "join sep [x] = x"
| "join sep (x # y # r) = x @ sep @ join sep (y # r)"

text \<open>The decimal text of a non-negative integer, as a template literal prints it.\<close>

fun show_nat :: "nat \<Rightarrow> string" where
  "show_nat n =
     (if n < 10 then [''0123456789'' ! n]
      else show_nat (n div 10) @ [''0123456789'' ! (n mod 10)])"

section \<open>Regular expressions\<close>

text \<open>
  The two regular expressions of \<open>parseSummaryResponse\<close> are written in a small
  abstract syntax and run by a backtracking matcher that returns the ways to match at the
  start of the input in the order a backtracking engine tries them: a repetition is
  greedy, an alternative tries its left branch first.  Each way is the rest of the input
  with the text of capture group 1.  \<open>Rep p lo hi\<close> is the character class \<open>p\<close> repeated between
  \<open>lo\<close> and \<open>hi\<close> times (\<open>None\<close>: unbounded).
\<close>

datatype regex =
    Eps
  | Chr "char \<Rightarrow> bool"
  | Rep "char \<Rightarrow> bool" nat "nat option"
  | Seq regex regex
  | Alt regex regex
  | Grp regex

fun rmatch :: "regex \<Rightarrow> string \<Rightarrow> string option \<Rightarrow> (string \<times> string option) list" where
  "rmatch Eps s cap = [(s, cap)]"
| "rmatch (Chr p) s cap =
     (case s of [] \<Rightarrow> [] | c # cs \<Rightarrow> if p c then [(cs, cap)] else [])"
| "rmatch (Rep p lo hi) s cap =
     (let n = length (takeWhile p s);
          m = (case hi of None \<Rightarrow> n | Some h \<Rightarrow> min h n)
      in map (\<lambda>k. (drop k s, cap)) (rev [lo..<Suc m]))"
| "rmatch (Seq a b) s cap =
     concat (map (\<lambda>(s', cap'). rmatch b s' cap') (rmatch a s cap))"
| "rmatch (Alt a b) s cap = rmatch a s cap @ rmatch b s cap"
| "rmatch (Grp r) s cap =
     map (\<lambda>(s', _). (s', Some (take (length s - length s') s))) (rmatch r s cap)"

text \<open>
  \<open>s.match(r)\<close> for a regular expression without the global flag: the first match
  at the leftmost position that has one.  \<open>None\<close> is \<open>null\<close>; otherwise the result is
  the text of group 1.
\<close>

fun js_match :: "regex \<Rightarrow> string \<Rightarrow> string option option" where
  "js_match r s =
     (case rmatch r s None of
        (_, cap) # _ \<Rightarrow> Some cap
      | [] \<Rightarrow> (case s of [] \<Rightarrow> None | _ # cs \<Rightarrow> js_match r cs))"

text \<open>
  Under the flag \<open>i\<close> two code units match when their canonical forms agree.  For the
  ASCII pattern characters used here that is equality up to the case of an ASCII letter:
  a code unit of 128 or more is never canonicalised to an ASCII one.
\<close>

definition canonicalize :: "char \<Rightarrow> char" where
  "canonicalize c =
     (let n = (of_char c :: nat)
      in if 97 \<le> n \<and> n \<le> 122 then char_of (n - 32) else c)"

definition lit_i :: "string \<Rightarrow> regex" where
  "lit_i w = foldr (\<lambda>c r. Seq (Chr (\<lambda>x. canonicalize x = canonicalize c)) r) w Eps"

definition isStar :: "char \<Rightarrow> bool" where
  "isStar c = (c = CHR ''*'')"

text \<open>The shape both expressions share: \<open>/\*{0,2}w\*{0,2}:\s*(g)/i\<close>.\<close>

definition token_re :: "string \<Rightarrow> regex \<Rightarrow> regex" where
  "token_re w g =
     Seq (Rep isStar 0 (Some 2)) (Seq (lit_i w) (Seq (Rep isStar 0 (Some 2))
       (Seq (lit_i '':'') (Seq (Rep isSpace 0 None) (Grp g)))))"

text \<open>\<open>/\*{0,2}sufficient\*{0,2}:\s*(yes|no)/i\<close>\<close>

definition re_sufficient :: regex where
  "re_sufficient = token_re ''sufficient'' (Alt (lit_i ''yes'') (lit_i ''no''))"

text \<open>\<open>/\*{0,2}answer\*{0,2}:\s*([\s\S]*)/i\<close>\<close>

definition re_answer :: regex where
  "re_answer = token_re ''answer'' (Rep (\<lambda>c. True) 0 None)"

text \<open>\<open>answer.replace(/^\*+|\*+$/g, "")\<close>: the leading and the trailing run of stars go.\<close>

definition stripStars :: "string \<Rightarrow> string" where
  "stripStars s = rev (dropWhile isStar (rev (dropWhile isStar s)))"

section \<open>The summary response parser\<close>

record parsed =
  sufficient :: bool
  answer :: string

definition parseSummaryResponse :: "string \<Rightarrow> parsed" where
  "parseSummaryResponse response =
     (let normalized = toLowerCase response;
          sufficientMatch = js_match re_sufficient normalized;
          hasSufficient = (sufficientMatch \<noteq> None);
          isSufficient = (case sufficientMatch of Some g \<Rightarrow> g = Some ''yes'' | None \<Rightarrow> False);
          answerMatch = js_match re_answer response
      in case answerMatch of
           Some g \<Rightarrow>
             \<lparr>sufficient = isSufficient,
              answer = trim (stripStars (trim (case g of Some a \<Rightarrow> a | None \<Rightarrow> [])))\<rparr>
         | None \<Rightarrow>
             if \<not> hasSufficient then \<lparr>sufficient = True, answer = trim response\<rparr>
             else \<lparr>sufficient = isSufficient, answer = []\<rparr>)"

subsection \<open>The tokens, described on the text\<close>

text \<open>
  What the two expressions look for, said without a matcher, for the properties below.
  Two texts have the same letters when they agree up to the case of ASCII letters.  A
  text starts with the token of a word when it starts with the word in any case, then at
  most two stars, then a colon; \<open>tokenHere\<close> gives the text after the colon.  After the token
  of \<open>sufficient\<close> the expression wants white space, as much as there is, and \<open>yes\<close> or \<open>no\<close>.
  \<open>firstBy\<close> looks for the first position of a text where a function has a result.
\<close>

definition sameLetters :: "string \<Rightarrow> string \<Rightarrow> bool" where
  "sameLetters u w = (map canonicalize u = map canonicalize w)"

definition tokenHere :: "string \<Rightarrow> string \<Rightarrow> string option" where
  "tokenHere w s =
     (if length w \<le> length s \<and> sameLetters (take (length w) s) w
      then (let t = drop (length w) s
            in if length (takeWhile isStar t) \<le> 2
               then (case dropWhile isStar t of
                       [] \<Rightarrow> None
                     | c # rest \<Rightarrow> if c = CHR '':'' then Some rest else None)
               else None)
      else None)"

definition yesNoHere :: "string \<Rightarrow> string option" where
  "yesNoHere x =
     (if 3 \<le> length x \<and> sameLetters (take 3 x) ''yes'' then Some (take 3 x)
      else if 2 \<le> length x \<and> sameLetters (take 2 x) ''no'' then Some (take 2 x)
      else None)"

fun firstBy :: "(string \<Rightarrow> 'a option) \<Rightarrow> string \<Rightarrow> 'a option" where
  "firstBy F [] = F []"
| "firstBy F (c # cs) = (case F (c # cs) of Some x \<Rightarrow> Some x | None \<Rightarrow> firstBy F cs)"

definition answerHere :: "string \<Rightarrow> string option option" where
  "answerHere s = map_option (\<lambda>rest. Some (dropWhile isSpace rest)) (tokenHere ''answer'' s)"

definition sufficientHere :: "string \<Rightarrow> string option option" where
  "sufficientHere s =
     (case tokenHere ''sufficient'' s of
        None \<Rightarrow> None
      | Some rest \<Rightarrow> map_option Some (yesNoHere (dropWhile isSpace rest)))"

text \<open>The capture of the first way to match, if there is one.\<close>

definition firstCap :: "(string \<times> string option) list \<Rightarrow> string option option" where
  "firstCap xs = (case xs of [] \<Rightarrow> None | (s', cap) # ys \<Rightarrow> Some cap)"

text \<open>
  The same as predicates on the whole reply: at position \<open>p\<close> of \<open>r\<close> there is an answer
  token followed by \<open>rest\<close>, or a sufficient token whose word is \<open>v\<close>; and a reply has no
  such token, or has its first one at \<open>p\<close>.
\<close>

definition answerTokenAt :: "string \<Rightarrow> nat \<Rightarrow> string \<Rightarrow> bool" where
  "answerTokenAt r p rest =
     (\<exists>pre u st. r = pre @ u @ st @ CHR '':'' # rest \<and> length pre = p \<and>
        sameLetters u ''answer'' \<and> list_all isStar st \<and> length st \<le> 2)"

definition sufficientTokenAt :: "string \<Rightarrow> nat \<Rightarrow> string \<Rightarrow> bool" where
  "sufficientTokenAt r p v =
     (\<exists>pre u st ws tl. r = pre @ u @ st @ CHR '':'' # ws @ v @ tl \<and> length pre = p \<and>
        sameLetters u ''sufficient'' \<and> list_all isStar st \<and> length st \<le> 2 \<and>
        list_all isSpace ws \<and> (sameLetters v ''yes'' \<or> sameLetters v ''no''))"

definition noAnswerToken :: "string \<Rightarrow> bool" where
  "noAnswerToken r = (\<forall>p rest. \<not> answerTokenAt r p rest)"

definition firstAnswerToken :: "string \<Rightarrow> nat \<Rightarrow> string \<Rightarrow> bool" where
  "firstAnswerToken r p rest =
     (answerTokenAt r p rest \<and> (\<forall>q<p. \<forall>x. \<not> answerTokenAt r q x))"

definition noSufficientToken :: "string \<Rightarrow> bool" where
  "noSufficientToken r = (\<forall>p v. \<not> sufficientTokenAt r p v)"

definition firstSufficientToken :: "string \<Rightarrow> nat \<Rightarrow> string \<Rightarrow> bool" where
  "firstSufficientToken r p v =
     (sufficientTokenAt r p v \<and> (\<forall>q<p. \<forall>x. \<not> sufficientTokenAt r q x))"

section \<open>The multi-tab query\<close>

record TabContentInfo =
  tab_title :: string
  tab_url :: string
  tab_content :: string
  cachedSummary :: "string option"
  hasCachedSummary :: bool

record chat_message =
  role :: string
  content :: string

record MultiTabQueryResult =
  success :: bool
  finalMessages :: "chat_message list option"
  error :: "string option"

record TabQueryResult =
  tq_title :: string
  tq_url :: string
  compressed :: string
  isRelevant :: bool

text \<open>
  What the callback of \<open>chrome.runtime.sendMessage\<close> can see after a
  \<open>CHAT_COMPLETION\<close> request: \<open>chrome.runtime.lastError\<close> set, no response object, or a
  response with its \<open>success\<close>, \<open>content\<close> and \<open>error\<close> fields.
\<close>

datatype chat_reply =
    LastError string
  | NoResponse
  | Response bool "string option" "string option"

text \<open>
  The inference engine is an external collaborator: a step function on a state \<open>'w\<close> of
  its own that answers a list of messages.  The record \<open>io\<close> threads that state and logs
  every request sent.
\<close>

type_synonym 'w engine = "'w \<Rightarrow> chat_message list \<Rightarrow> chat_reply \<times> 'w"

record 'w io =
  world :: 'w
  calls :: "chat_message list list"

definition CONFIG_maxContentLength :: nat where
  "CONFIG_maxContentLength = 8000"

definition CONFIG_minContentLength :: nat where
  "CONFIG_minContentLength = 100"

text \<open>\<open>silentChat\<close>: \<open>Inr\<close> is the resolved content, \<open>Inl\<close> the message of the rejection.\<close>

definition silentChat :: "'w engine \<Rightarrow> chat_message list \<Rightarrow> 'w io \<Rightarrow> (string + string) \<times> 'w io" where
  "silentChat eng messages st =
     (let (reply, w') = eng (world st) messages;
          st' = \<lparr>world = w', calls = calls st @ [messages]\<rparr>
      in (case reply of
            LastError m \<Rightarrow> Inl m
          | Response True c e \<Rightarrow> Inr (case c of Some t \<Rightarrow> t | None \<Rightarrow> [])
          | Response False c e \<Rightarrow>
              Inl (case e of Some m \<Rightarrow> if m = [] then ''Unknown error'' else m
                   | None \<Rightarrow> ''Unknown error'')
          | NoResponse \<Rightarrow> Inl ''Unknown error'',
          st'))"

definition contentMessages :: "string \<Rightarrow> string \<Rightarrow> chat_message list" where
  "contentMessages cont question =
     [\<lparr>role = ''system'',
       content = ''Answer the question based on the provided content. Format: Concise bullet points. If the content doesn't contain relevant information, say 'No relevant information'. No conversational filler.''\<rparr>,
      \<lparr>role = ''user'',
       content = ''CONTENT: '' @ substring0 cont CONFIG_maxContentLength @
                 ''\<newline>QUESTION: '' @ question @ ''\<newline>ANSWER:''\<rparr>]"

definition answerFromContent :: "'w engine \<Rightarrow> string \<Rightarrow> string \<Rightarrow> 'w io \<Rightarrow> (string + string) \<times> 'w io" where
  "answerFromContent eng cont question st = silentChat eng (contentMessages cont question) st"

definition summaryMessages :: "string \<Rightarrow> string \<Rightarrow> chat_message list" where
  "summaryMessages summary userMessage =
     [\<lparr>role = ''system'',
       content = ''Answer the question based on the summary. You MUST use this EXACT format (no markdown, no asterisks):\<newline>SUFFICIENT: yes\<newline>ANSWER: your answer\<newline>\<newline>OR if info not found:\<newline>SUFFICIENT: no\<newline>ANSWER: N/A\<newline>\<newline>Be concise. No extra text.''\<rparr>,
      \<lparr>role = ''user'',
       content = ''SUMMARY: '' @ summary @ ''\<newline>\<newline>QUESTION: '' @ userMessage\<rparr>]"

text \<open>
  The body of the Phase 1 loop for one tab: the compressed answer and the relevance
  mark.  A rejected engine call is caught inside the branch it was made in.
\<close>

definition relevantDirect :: "string \<Rightarrow> bool" where
  "relevantDirect compressedContent =
     (\<not> includesStr (toLowerCase compressedContent) ''no relevant information'')"

definition relevantSummary :: "string \<Rightarrow> bool" where
  "relevantSummary compressedContent =
     (\<not> includesStr (toLowerCase compressedContent) ''no relevant information'' \<and>
      toLowerCase compressedContent \<noteq> ''n/a'' \<and>
      trim compressedContent \<noteq> [])"

definition directAnswer :: "'w engine \<Rightarrow> TabContentInfo \<Rightarrow> string \<Rightarrow> 'w io \<Rightarrow> (string \<times> bool) \<times> 'w io" where
  "directAnswer eng tabInfo userMessage st =
     (case answerFromContent eng (tab_content tabInfo) userMessage st of
        (Inr compressedContent, st') \<Rightarrow> ((compressedContent, relevantDirect compressedContent), st')
      | (Inl err, st') \<Rightarrow> ((''Error processing this tab'', False), st'))"

definition processTab :: "'w engine \<Rightarrow> TabContentInfo \<Rightarrow> string \<Rightarrow> 'w io \<Rightarrow> TabQueryResult \<times> 'w io" where
  "processTab eng tabInfo userMessage st =
     (let ((compressedContent, rel), st') =
        (case (hasCachedSummary tabInfo, cachedSummary tabInfo) of
           (True, Some (c # cs)) \<Rightarrow>
             (case silentChat eng (summaryMessages (c # cs) userMessage) st of
                (Inr summaryResponse, st1) \<Rightarrow>
                  (let parsedResult = parseSummaryResponse summaryResponse
                   in if sufficient parsedResult
                      then ((answer parsedResult, relevantSummary (answer parsedResult)), st1)
                      else directAnswer eng tabInfo userMessage st1)
              | (Inl err, st1) \<Rightarrow> ((''Error processing this tab'', False), st1))
         | _ \<Rightarrow> directAnswer eng tabInfo userMessage st)
      in (\<lparr>tq_title = tab_title tabInfo, tq_url = tab_url tabInfo,
           compressed = compressedContent, isRelevant = rel\<rparr>, st'))"

fun phase1 :: "'w engine \<Rightarrow> TabContentInfo list \<Rightarrow> string \<Rightarrow> 'w io \<Rightarrow> TabQueryResult list \<times> 'w io" where
  "phase1 eng [] userMessage st = ([], st)"
| "phase1 eng (tabInfo # rest) userMessage st =
     (let (r, st1) = processTab eng tabInfo userMessage st;
          (rs, st2) = phase1 eng rest userMessage st1
      in (r # rs, st2))"

definition pageContext :: "TabContentInfo list \<Rightarrow> string" where
  "pageContext allTabContents =
     join ''\<newline>''
       (map (\<lambda>(index, tabInfo).
               ''=== Tab '' @ show_nat (index + 1) @ '': '' @ tab_title tabInfo @
               '' ===\<newline>URL: '' @ tab_url tabInfo @ ''\<newline>\<newline>'' @
               tab_content tabInfo @ ''\<newline>\<newline>'')
          (enumerate 0 allTabContents))"

definition combinedContext :: "TabQueryResult list \<Rightarrow> string" where
  "combinedContext relevantTabs =
     join ''\<newline>''
       (map (\<lambda>(index, tabInfo).
               ''=== Tab '' @ show_nat (index + 1) @ '': '' @ tq_title tabInfo @
               '' ===\<newline>URL: '' @ tq_url tabInfo @
               ''\<newline>Relevant Information: '' @ compressed tabInfo @ ''\<newline>'')
          (enumerate 0 relevantTabs))"

definition aggregate :: "nat \<Rightarrow> TabQueryResult list \<Rightarrow> string" where
  "aggregate n compressedTabContents =
     (let relevantTabs = filter isRelevant compressedTabContents
      in if length relevantTabs > 0
         then ''You are a helpful assistant. The user has '' @ show_nat n @
              '' browser tabs open. Below is the relevant information extracted from '' @
              show_nat (length relevantTabs) @ '' relevant tabs:\<newline>\<newline>'' @
              combinedContext relevantTabs @
              ''\<newline>\<newline>Please provide a comprehensive answer.''
         else ''You are a helpful assistant. The user has '' @ show_nat n @
              '' browser tabs open, but none contain relevant information. Please let the user know.'')"

definition processMultiTabQuery ::
  "'w engine \<Rightarrow> TabContentInfo list \<Rightarrow> string \<Rightarrow> 'w io \<Rightarrow> MultiTabQueryResult \<times> 'w io" where
  "processMultiTabQuery eng allTabContents userMessage st =
     (if length allTabContents \<le> 1
      then (\<lparr>success = True,
             finalMessages = Some
               [\<lparr>role = ''system'',
                 content = ''You are a helpful assistant. Here is the content of the browser tab:\<newline>\<newline>'' @
                           pageContext allTabContents @
                           ''\<newline>\<newline>Please answer questions about this webpage.''\<rparr>,
                \<lparr>role = ''user'', content = userMessage\<rparr>],
             error = None\<rparr>, st)
      else
        (let (compressedTabContents, st') = phase1 eng allTabContents userMessage st
         in (\<lparr>success = True,
               finalMessages = Some
                 [\<lparr>role = ''system'',
                   content = aggregate (length allTabContents) compressedTabContents\<rparr>,
                  \<lparr>role = ''user'', content = userMessage\<rparr>],
               error = None\<rparr>, st')))"

text \<open>An engine that answers from a script, one reply per request.\<close>

fun scripted :: "chat_reply list engine" where
  "scripted [] messages = (NoResponse, [])"
| "scripted (r # rs) messages = (r, rs)"

text \<open>The summary the cached branch of Phase 1 uses: present, flagged and not empty.\<close>

definition usesSummary :: "TabContentInfo \<Rightarrow> string option" where
  "usesSummary tabInfo =
     (case (hasCachedSummary tabInfo, cachedSummary tabInfo) of
        (True, Some (c # cs)) \<Rightarrow> Some (c # cs)
      | _ \<Rightarrow> None)"

definition tabResult :: "TabContentInfo \<Rightarrow> string \<Rightarrow> bool \<Rightarrow> TabQueryResult" where
  "tabResult tabInfo a rel =
     \<lparr>tq_title = tab_title tabInfo, tq_url = tab_url tabInfo, compressed = a, isRelevant = rel\<rparr>"

text \<open>The content of the first of the final messages.\<close>

definition systemContent :: "MultiTabQueryResult \<Rightarrow> string" where
  "systemContent r = (case finalMessages r of Some (m # ms) \<Rightarrow> content m | _ \<Rightarrow> [])"

text \<open>
  A text reads as a notice that no tab is available when it says so in one of these
  words, in any case.
\<close>

definition saysNoTab :: "string \<Rightarrow> bool" where
  "saysNoTab t =
     list_ex (includesStr (toLowerCase t))
       [''no tab'', ''no browser tab'', ''no open tab'', ''no page'', ''no content'',
        ''not available'', ''unavailable'', ''none'']"

text \<open>Three tabs and three engine replies, used to run the query on concrete input.\<close>

definition exampleTab :: "string \<Rightarrow> TabContentInfo" where
  "exampleTab n =
     \<lparr>tab_title = ''Tab '' @ n, tab_url = ''https://example.org/'' @ n,
      tab_content = ''Text of '' @ n, cachedSummary = None, hasCachedSummary = False\<rparr>"

definition withSummary :: "TabContentInfo \<Rightarrow> TabContentInfo" where
  "withSummary tabInfo =
     tabInfo\<lparr>cachedSummary := Some (''Summary of '' @ tab_title tabInfo), hasCachedSummary := True\<rparr>"

definition exampleTabs :: "TabContentInfo list" where
  "exampleTabs = [exampleTab ''a'', exampleTab ''b'', exampleTab ''c'']"

definition exampleReplies :: "chat_reply list io" where
  "exampleReplies =
     \<lparr>world = [Response True (Some ''No relevant information'') None,
               Response True (Some ''N/A'') None,
               Response True (Some ''Paris is the capital'') None],
      calls = []\<rparr>"

section \<open>The background service worker\<close>

text \<open>
  The control plane is event driven: every handler runs to its next \<open>await\<close> of an
  external reply and is resumed by that reply.  Each segment between two such points is
  a function on the state of the service worker.  The state holds the global variables of
  the script, the persisted store and a log of what the worker sent out, in order.  The
  reads and writes of \<open>chrome.storage.local\<close> are total operations on a map and take
  effect at once; \<open>engineInitProgress\<close>, a fraction shown by the user interface, is left out.
\<close>

record PendingPageData =
  pp_url :: string
  pp_title :: string
  pp_content :: string
  pp_timestamp :: nat

record SummaryData =
  sd_url :: string
  sd_title :: string
  summary :: string
  sd_timestamp :: nat
  contentLength :: nat

record StreamChunk =
  requestId :: string
  chunk :: "string option"
  chunk_done :: "bool option"
  chunk_error :: "string option"
  usage :: "string option"

datatype init_status = StatusReady | StatusInitializing | StatusError

record EngineInitResult =
  status :: init_status
  modelId :: string
  init_error :: "string option"

datatype stored =
    StoredSummary SummaryData
  | StoredPending PendingPageData
  | StoredModelId string

type_synonym port = nat

text \<open>Messages to the offscreen document, and messages posted on a port.\<close>

datatype bg_message =
    INIT_ENGINE string
  | SUMMARIZE_PAGE string string string
  | CHAT_COMPLETION_STREAM string "chat_message list"
  | ABORT_REQUEST string

datatype port_message =
    StatusMessage string
  | ErrorMessage string
  | ChunkMessage StreamChunk

datatype bg_event =
    Sent bg_message
  | Posted port port_message
  | Disconnected port

record bg_state =
  offscreenDocumentCreated :: bool
  offscreenEngineReady :: bool
  isEngineInitializing :: bool
  currentModelId :: string
  summarizationQueue :: "string list"
  isSummarizing :: bool
  awaiting :: "(string \<times> PendingPageData) option"
  streamPorts :: "(string \<times> port) list"
  storage :: "string \<rightharpoonup> stored"
  log :: "bg_event list"

definition SUMMARY_CACHE_PREFIX :: string where
  "SUMMARY_CACHE_PREFIX = ''page_summary_''"

definition PENDING_CACHE_PREFIX :: string where
  "PENDING_CACHE_PREFIX = ''pending_page_''"

definition MODEL_STORAGE_KEY :: string where
  "MODEL_STORAGE_KEY = ''selected_model_id''"

definition send :: "bg_message \<Rightarrow> bg_state \<Rightarrow> bg_state" where
  "send m s = s\<lparr>log := log s @ [Sent m]\<rparr>"

definition postMessage :: "port \<Rightarrow> port_message \<Rightarrow> bg_state \<Rightarrow> bg_state" where
  "postMessage p m s = s\<lparr>log := log s @ [Posted p m]\<rparr>"

subsection \<open>The offscreen document and the engine\<close>

text \<open>
  What the platform answers when the offscreen document is provisioned: a context
  exists already, the document is created, or an exception is thrown.
\<close>

datatype provision = ContextExists | DocumentCreated | ProvisionFailed

definition ensureOffscreenDocument :: "provision \<Rightarrow> bg_state \<Rightarrow> bool \<times> bg_state" where
  "ensureOffscreenDocument env s =
     (if offscreenDocumentCreated s then (True, s)
      else case env of
             ContextExists \<Rightarrow> (True, s\<lparr>offscreenDocumentCreated := True\<rparr>)
           | DocumentCreated \<Rightarrow> (True, s\<lparr>offscreenDocumentCreated := True\<rparr>)
           | ProvisionFailed \<Rightarrow> (False, s))"

text \<open>
  \<open>initializeEngine\<close> in its three segments: up to the await of
  \<open>ensureOffscreenDocument\<close>, from there to the await of the reply to \<open>INIT_ENGINE\<close>, and
  the reply.  An empty \<open>forceModelId\<close> is falsy.
\<close>

datatype init_step = InitDone EngineInitResult | InitAwaitProvision string

definition truthy :: "string option \<Rightarrow> bool" where
  "truthy x = (case x of Some (c # cs) \<Rightarrow> True | _ \<Rightarrow> False)"

definition initializeEngine_begin :: "string option \<Rightarrow> bg_state \<Rightarrow> init_step" where
  "initializeEngine_begin forceModelId s =
     (let m = (case forceModelId of Some (c # cs) \<Rightarrow> c # cs | _ \<Rightarrow> currentModelId s)
      in if offscreenEngineReady s \<and> \<not> truthy forceModelId
         then InitDone \<lparr>status = StatusReady, modelId = m, init_error = None\<rparr>
         else if isEngineInitializing s \<and> \<not> truthy forceModelId
         then InitDone \<lparr>status = StatusInitializing, modelId = m, init_error = None\<rparr>
         else InitAwaitProvision m)"

definition initializeEngine_provisioned ::
  "provision \<Rightarrow> string \<Rightarrow> bg_state \<Rightarrow> EngineInitResult option \<times> bg_state" where
  "initializeEngine_provisioned env m s =
     (let (created, s1) = ensureOffscreenDocument env s
      in if created
         then (None, send (INIT_ENGINE m) (s1\<lparr>isEngineInitializing := True\<rparr>))
         else (Some \<lparr>status = StatusError, modelId = m,
                     init_error = Some ''Failed to create offscreen document''\<rparr>, s1))"

text \<open>
  The reply to \<open>INIT_ENGINE\<close>: \<open>chrome.runtime.lastError\<close>, or a response with a status text
  and an error text, or nothing.
\<close>

datatype init_reply =
    InitLastError string
  | InitResponse string "string option"
  | InitNoResponse

definition initializeEngine_reply :: "string \<Rightarrow> init_reply \<Rightarrow> EngineInitResult" where
  "initializeEngine_reply m reply =
     (case reply of
        InitLastError e \<Rightarrow> \<lparr>status = StatusError, modelId = m, init_error = Some e\<rparr>
      | InitNoResponse \<Rightarrow>
          \<lparr>status = StatusError, modelId = m, init_error = Some ''Unknown response from offscreen''\<rparr>
      | InitResponse st e \<Rightarrow>
          if st = ''ready'' then \<lparr>status = StatusReady, modelId = m, init_error = None\<rparr>
          else if st = ''initializing''
          then \<lparr>status = StatusInitializing, modelId = m, init_error = None\<rparr>
          else if st = ''error''
          then \<lparr>status = StatusError, modelId = m,
                init_error = Some (if truthy e then the e else ''Unknown engine error'')\<rparr>
          else \<lparr>status = StatusError, modelId = m,
                init_error = Some ''Unknown response from offscreen''\<rparr>)"

subsection \<open>The summary cache and the pending pages\<close>

definition getCachedSummary :: "bg_state \<Rightarrow> string \<Rightarrow> SummaryData option" where
  "getCachedSummary s url =
     (case storage s (SUMMARY_CACHE_PREFIX @ url) of
        Some (StoredSummary d) \<Rightarrow> Some d
      | _ \<Rightarrow> None)"

definition saveCachedSummary :: "SummaryData \<Rightarrow> bg_state \<Rightarrow> bg_state" where
  "saveCachedSummary d s =
     s\<lparr>storage := (storage s)(SUMMARY_CACHE_PREFIX @ sd_url d \<mapsto> StoredSummary d)\<rparr>"

definition getPendingPage :: "bg_state \<Rightarrow> string \<Rightarrow> PendingPageData option" where
  "getPendingPage s url =
     (case storage s (PENDING_CACHE_PREFIX @ url) of
        Some (StoredPending d) \<Rightarrow> Some d
      | _ \<Rightarrow> None)"

definition savePendingPage :: "PendingPageData \<Rightarrow> bg_state \<Rightarrow> bg_state" where
  "savePendingPage d s =
     s\<lparr>storage := (storage s)(PENDING_CACHE_PREFIX @ pp_url d \<mapsto> StoredPending d)\<rparr>"

definition removePendingPage :: "string \<Rightarrow> bg_state \<Rightarrow> bg_state" where
  "removePendingPage url s =
     s\<lparr>storage := (storage s)(PENDING_CACHE_PREFIX @ url := None)\<rparr>"

subsection \<open>The summarization queue\<close>

text \<open>
  The consumer loop runs until it has sent a \<open>SUMMARIZE_PAGE\<close> request, where it is
  suspended with the URL and the page in \<open>awaiting\<close>, or until the queue is empty.  The
  recursion is on the queue: every iteration shifts one URL.
\<close>

fun drain :: "string list \<Rightarrow> bg_state \<Rightarrow> bg_state" where
  "drain [] s = s\<lparr>summarizationQueue := [], isSummarizing := False\<rparr>"
| "drain (url # rest) s =
     (case getPendingPage s url of
        None \<Rightarrow> drain rest s
      | Some pageData \<Rightarrow>
          (case getCachedSummary s url of
             Some existingSummary \<Rightarrow> drain rest (removePendingPage url s)
           | None \<Rightarrow>
               send (SUMMARIZE_PAGE (pp_url pageData) (pp_title pageData)
                       (substring0 (pp_content pageData) CONFIG_maxContentLength))
                 (s\<lparr>summarizationQueue := rest, awaiting := Some (url, pageData)\<rparr>)))"

definition consumerLoop :: "bg_state \<Rightarrow> bg_state" where
  "consumerLoop s = drain (summarizationQueue s) s"

definition processSummarizationQueue :: "bg_state \<Rightarrow> bg_state" where
  "processSummarizationQueue s =
     (if isSummarizing s \<or> summarizationQueue s = [] \<or> \<not> offscreenEngineReady s then s
      else consumerLoop (s\<lparr>isSummarizing := True\<rparr>))"





definition queuePageForSummarization ::
  "nat \<Rightarrow> provision \<Rightarrow> string \<Rightarrow> string \<Rightarrow> string \<Rightarrow> bg_state \<Rightarrow> bg_state" where
  "queuePageForSummarization now env url title cont s =
     (case getCachedSummary s url of
        Some existingSummary \<Rightarrow> s
      | None \<Rightarrow>
          (let s1 = savePendingPage
                      \<lparr>pp_url = url, pp_title = title, pp_content = cont, pp_timestamp = now\<rparr> s;
               s2 = (if url \<in> set (summarizationQueue s1) then s1
                     else s1\<lparr>summarizationQueue := summarizationQueue s1 @ [url]\<rparr>);
               s3 = snd (ensureOffscreenDocument env s2)
           in processSummarizationQueue s3))"

text \<open>The handlers of \<open>PAGE_LOADED\<close>, \<open>ENGINE_READY\<close> and \<open>ENGINE_ERROR\<close>.\<close>

definition onPageLoaded ::
  "nat \<Rightarrow> provision \<Rightarrow> string \<Rightarrow> string \<Rightarrow> string \<Rightarrow> bg_state \<Rightarrow> bg_state" where
  "onPageLoaded now env url title cont s =
     (if length cont > CONFIG_minContentLength
      then queuePageForSummarization now env url title cont s else s)"

definition onEngineReady :: "bg_state \<Rightarrow> bg_state" where
  "onEngineReady s =
     processSummarizationQueue (s\<lparr>offscreenEngineReady := True, isEngineInitializing := False\<rparr>)"

definition onEngineError :: "bg_state \<Rightarrow> bg_state" where
  "onEngineError s = s\<lparr>isEngineInitializing := False\<rparr>"


subsection \<open>The multi-tab query handler\<close>

definition onProcessMultiTabQuery ::
  "'w engine \<Rightarrow> TabContentInfo list \<Rightarrow> string \<Rightarrow> bg_state \<Rightarrow> 'w io \<Rightarrow> MultiTabQueryResult \<times> 'w io" where
  "onProcessMultiTabQuery eng tabContents userMessage s st =
     (if offscreenEngineReady s
      then processMultiTabQuery eng tabContents userMessage st
      else (\<lparr>success = False, finalMessages = None, error = Some ''Engine not ready''\<rparr>, st))"

subsection \<open>Model change\<close>

definition onChangeModel :: "string option \<Rightarrow> bg_state \<Rightarrow> init_step option \<times> bg_state" where
  "onChangeModel newModelId s =
     (if \<not> truthy newModelId then (None, s)
      else if the newModelId = currentModelId s \<and> offscreenEngineReady s then (None, s)
      else (let s1 = s\<lparr>currentModelId := the newModelId, offscreenEngineReady := False,
                        isEngineInitializing := True,
                        storage := (storage s)(MODEL_STORAGE_KEY \<mapsto> StoredModelId (the newModelId))\<rparr>
            in (Some (initializeEngine_begin newModelId s1), s1)))"

subsection \<open>The streaming multiplexer\<close>

text \<open>
  \<open>CHAT_STREAM_START\<close> on a port, with the fresh request id the handler draws.  With the
  engine ready the handler runs through; otherwise it posts the status and awaits
  \<open>initializeEngine()\<close>, and \<open>chatStreamStart_resume\<close> is the rest of the handler, run
  with the result.
\<close>

definition registerStream :: "port \<Rightarrow> string \<Rightarrow> chat_message list \<Rightarrow> bg_state \<Rightarrow> bg_state" where
  "registerStream p rid messages s =
     send (CHAT_COMPLETION_STREAM rid messages)
       (s\<lparr>streamPorts := AList.update rid p (streamPorts s)\<rparr>)"

definition chatStreamStart_resume ::
  "port \<Rightarrow> string \<Rightarrow> chat_message list \<Rightarrow> EngineInitResult \<Rightarrow> bg_state \<Rightarrow> bg_state" where
  "chatStreamStart_resume p rid messages result s =
     (if status result = StatusError
      then postMessage p
             (ErrorMessage (if truthy (init_error result) then the (init_error result)
                            else ''Engine initialization failed'')) s
      else if \<not> offscreenEngineReady s then postMessage p (ErrorMessage ''Engine not ready'') s
      else registerStream p rid messages s)"

datatype stream_step = StreamStarted | StreamAwaitInit init_step

definition chatStreamStart_begin ::
  "port \<Rightarrow> string \<Rightarrow> chat_message list \<Rightarrow> bg_state \<Rightarrow> stream_step \<times> bg_state" where
  "chatStreamStart_begin p rid messages s =
     (if offscreenEngineReady s then (StreamStarted, registerStream p rid messages s)
      else (StreamAwaitInit (initializeEngine_begin None s),
            postMessage p (StatusMessage ''initializing'') s))"

text \<open>The callback of the \<open>CHAT_COMPLETION_STREAM\<close> request.\<close>

datatype stream_reply = StreamLastError string | StreamResponse "string option"

definition onStreamStartReply :: "port \<Rightarrow> string \<Rightarrow> stream_reply \<Rightarrow> bg_state \<Rightarrow> bg_state" where
  "onStreamStartReply p rid reply s =
     (case reply of
        StreamLastError e \<Rightarrow>
          (postMessage p (ErrorMessage e) s)\<lparr>streamPorts := AList.delete rid (streamPorts s)\<rparr>
      | StreamResponse e \<Rightarrow>
          if truthy e
          then (postMessage p (ErrorMessage (the e)) s)\<lparr>streamPorts := AList.delete rid (streamPorts s)\<rparr>
          else s)"

text \<open>The handler of \<open>STREAM_CHUNK\<close>; an empty error text is falsy.\<close>

definition terminal :: "StreamChunk \<Rightarrow> bool" where
  "terminal c = (chunk_done c = Some True \<or> truthy (chunk_error c))"

definition onStreamChunk :: "StreamChunk \<Rightarrow> bg_state \<Rightarrow> bg_state" where
  "onStreamChunk c s =
     (case map_of (streamPorts s) (requestId c) of
        None \<Rightarrow> s
      | Some p \<Rightarrow>
          (let s1 = postMessage p (ChunkMessage c) s
           in if terminal c
              then s1\<lparr>streamPorts := AList.delete (requestId c) (streamPorts s1)\<rparr>
              else s1))"

text \<open>The disconnect listener of a \<open>chat_stream\<close> port.\<close>

definition abortAll :: "string list \<Rightarrow> bg_state \<Rightarrow> bg_state" where
  "abortAll rids s = s\<lparr>log := log s @ map (\<lambda>rid. Sent (ABORT_REQUEST rid)) rids\<rparr>"

definition onDisconnect :: "port \<Rightarrow> bg_state \<Rightarrow> bg_state" where
  "onDisconnect p s =
     abortAll (map fst (filter (\<lambda>(rid, q). q = p) (streamPorts s)))
       (s\<lparr>streamPorts := filter (\<lambda>(rid, q). q \<noteq> p) (streamPorts s),
          log := log s @ [Disconnected p]\<rparr>)"

text \<open>
  A log forwards to a closed connection when it posts on a port after the disconnect of
  that port.
\<close>

fun postsAfterClose :: "bg_event list \<Rightarrow> port list \<Rightarrow> bool" where
  "postsAfterClose [] closed = False"
| "postsAfterClose (Disconnected p # es) closed = postsAfterClose es (p # closed)"
| "postsAfterClose (Posted p m # es) closed = (p \<in> set closed \<or> postsAfterClose es closed)"
| "postsAfterClose (Sent m # es) closed = postsAfterClose es closed"

subsection \<open>States and runs used in the properties\<close>

text \<open>Every pending page is stored under its own URL.\<close>

definition wellKeyed :: "bg_state \<Rightarrow> bool" where
  "wellKeyed s = (\<forall>u d. getPendingPage s u = Some d \<longrightarrow> pp_url d = u)"






definition initialState :: bg_state where
  "initialState =
     \<lparr>offscreenDocumentCreated = False, offscreenEngineReady = False,
      isEngineInitializing = False, currentModelId = ''Qwen3-1.7B-q4f16_1-MLC'',
      summarizationQueue = [], isSummarizing = False, awaiting = None, streamPorts = [],
      storage = Map.empty, log = []\<rparr>"

definition readyState :: bg_state where
  "readyState = initialState\<lparr>offscreenDocumentCreated := True, offscreenEngineReady := True\<rparr>"










section \<open>The offscreen document\<close>

text \<open>
  The inference plane holds the engine, its flags and the table of active requests, a map
  from request id to the \<open>aborted\<close> flag of the request.  No reference to a request object
  is kept outside the table: every reader looks the request up by its id.  The log
  \<open>effects\<close> records, in order, the calls made on the engine and the messages sent to the
  background.  As in the background, each function is cut at its awaits.  The progress
  callback of the engine is left out.
\<close>

datatype os_message =
    ENGINE_READY string
  | ENGINE_ERROR string
  | STREAM_CHUNK StreamChunk

datatype os_effect =
    Unload
  | CreateMLCEngine string
  | ChatCreate bool "chat_message list"
  | InterruptGenerate
  | SendMessage os_message

record os_state =
  engine :: "string option"
  os_isEngineInitializing :: bool
  engineReady :: bool
  os_currentModelId :: string
  activeRequests :: "(string \<times> bool) list"
  effects :: "os_effect list"

definition effect :: "os_effect \<Rightarrow> os_state \<Rightarrow> os_state" where
  "effect e s = s\<lparr>effects := effects s @ [e]\<rparr>"

definition CHUNK_TIMEOUT_MS :: int where
  "CHUNK_TIMEOUT_MS = 30000"

definition DEFAULT_OFFSCREEN_MODEL :: string where
  "DEFAULT_OFFSCREEN_MODEL = ''Llama-3.2-1B-Instruct-q4f16_1-MLC''"

subsection \<open>Engine initialization\<close>

text \<open>
  \<open>initEngine\<close> returns a status and an error text, or is suspended at
  \<open>await engine.unload()\<close> or at \<open>await CreateMLCEngine(...)\<close>.  An exception of
  \<open>unload\<close> is caught, so \<open>initEngine_unloaded\<close> resumes after either outcome.
\<close>

datatype os_init_step =
    OsReturn string "string option"
  | OsAwaitUnload
  | OsAwaitCreate

definition markAllAborted :: "(string \<times> bool) list \<Rightarrow> (string \<times> bool) list" where
  "markAllAborted reqs = map (\<lambda>(rid, aborted). (rid, True)) reqs"

definition clear :: "(string \<times> bool) list \<Rightarrow> (string \<times> bool) list" where
  "clear reqs = []"

definition initEngine_create :: "string \<Rightarrow> os_state \<Rightarrow> os_init_step \<times> os_state" where
  "initEngine_create m s =
     (OsAwaitCreate,
      effect (CreateMLCEngine m) (s\<lparr>os_isEngineInitializing := True, os_currentModelId := m\<rparr>))"

definition initEngine_begin :: "string option \<Rightarrow> os_state \<Rightarrow> os_init_step \<times> os_state" where
  "initEngine_begin arg s =
     (let m = (case arg of None \<Rightarrow> DEFAULT_OFFSCREEN_MODEL | Some x \<Rightarrow> x)
      in if engine s \<noteq> None \<and> os_currentModelId s = m \<and> engineReady s
         then (OsReturn ''ready'' None, s)
         else if os_isEngineInitializing s \<and> os_currentModelId s = m
         then (OsReturn ''initializing'' None, s)
         else if engine s \<noteq> None \<and> os_currentModelId s \<noteq> m
         then (OsAwaitUnload,
               effect Unload (s\<lparr>activeRequests := clear (markAllAborted (activeRequests s))\<rparr>))
         else initEngine_create m s)"

definition initEngine_unloaded :: "string \<Rightarrow> os_state \<Rightarrow> os_init_step \<times> os_state" where
  "initEngine_unloaded m s = initEngine_create m (s\<lparr>engine := None, engineReady := False\<rparr>)"

datatype create_outcome = EngineCreated | CreateFailed string

definition initEngine_created :: "string \<Rightarrow> create_outcome \<Rightarrow> os_state \<Rightarrow> os_init_step \<times> os_state" where
  "initEngine_created m outcome s =
     (case outcome of
        EngineCreated \<Rightarrow>
          (OsReturn ''ready'' None,
           (effect (SendMessage (ENGINE_READY m)) (s\<lparr>engine := Some m, engineReady := True\<rparr>))
             \<lparr>os_isEngineInitializing := False\<rparr>)
      | CreateFailed e \<Rightarrow>
          (OsReturn ''error'' (Some e),
           (effect (SendMessage (ENGINE_ERROR e)) s)\<lparr>os_isEngineInitializing := False\<rparr>))"

subsection \<open>Requests\<close>

definition notReady :: "os_state \<Rightarrow> bool" where
  "notReady s = (engine s = None \<or> \<not> engineReady s)"

definition register :: "string \<Rightarrow> os_state \<Rightarrow> os_state" where
  "register rid s = s\<lparr>activeRequests := AList.update rid False (activeRequests s)\<rparr>"

definition unregister :: "string \<Rightarrow> os_state \<Rightarrow> os_state" where
  "unregister rid s = s\<lparr>activeRequests := AList.delete rid (activeRequests s)\<rparr>"

definition isAborted :: "string \<Rightarrow> os_state \<Rightarrow> bool" where
  "isAborted rid s = (map_of (activeRequests s) rid = Some True)"

definition abortRequest :: "string \<Rightarrow> os_state \<Rightarrow> os_state" where
  "abortRequest rid s =
     (case map_of (activeRequests s) rid of
        None \<Rightarrow> s
      | Some aborted \<Rightarrow> s\<lparr>activeRequests := AList.update rid True (activeRequests s)\<rparr>)"

text \<open>
  \<open>chatCompletion\<close>: the start, and the end of the awaited engine call, which completes
  with a content or throws.  The \<open>finally\<close> block runs on both.
\<close>

datatype completion_outcome = Completed "string option" | CompletionThrew string

definition chatCompletion_begin ::
  "string \<Rightarrow> chat_message list \<Rightarrow> os_state \<Rightarrow> string + os_state" where
  "chatCompletion_begin rid messages s =
     (if notReady s then Inl ''Error: Engine not ready''
      else Inr (effect (ChatCreate False messages) (register rid s)))"

definition chatCompletion_settle ::
  "string \<Rightarrow> completion_outcome \<Rightarrow> os_state \<Rightarrow> (string + string) \<times> os_state" where
  "chatCompletion_settle rid outcome s =
     (case outcome of
        CompletionThrew e \<Rightarrow> Inl e
      | Completed c \<Rightarrow>
          if isAborted rid s then Inl ''Error: Request aborted''
          else Inr (case c of Some t \<Rightarrow> t | None \<Rightarrow> []),
      unregister rid s)"

text \<open>
  \<open>chatCompletionStream\<close>: the start; an exception of the creation (its time-out
  included) or of the iteration; one iteration of the loop for a chunk that arrives at
  time \<open>now\<close>, which leaves the time of the last chunk for the next iteration, or nothing
  when the function has settled; and the end of the iteration.
\<close>

definition errorChunk :: "string \<Rightarrow> string \<Rightarrow> bool option \<Rightarrow> StreamChunk" where
  "errorChunk rid e d =
     \<lparr>requestId = rid, chunk = None, chunk_done = d, chunk_error = Some e, usage = None\<rparr>"

definition chatCompletionStream_begin ::
  "string \<Rightarrow> chat_message list \<Rightarrow> os_state \<Rightarrow> bool \<times> os_state" where
  "chatCompletionStream_begin rid messages s =
     (if notReady s
      then (False, effect (SendMessage (STREAM_CHUNK (errorChunk rid ''Engine not ready'' None))) s)
      else (True, effect (ChatCreate True messages) (register rid s)))"

definition stream_threw :: "string \<Rightarrow> string \<Rightarrow> os_state \<Rightarrow> os_state" where
  "stream_threw rid e s =
     unregister rid (effect (SendMessage (STREAM_CHUNK (errorChunk rid e (Some True)))) s)"

text \<open>
  \<open>await engine.interruptGenerate()\<close>: on a null engine the member access throws a
  \<open>TypeError\<close>, whose text is that of the runtime; on an engine the call is logged, and
  \<open>threw\<close> is the text of the exception it throws, if any.
\<close>

definition NULL_ENGINE_ERROR :: string where
  "NULL_ENGINE_ERROR =
     ''TypeError: Cannot read properties of null (reading '' @ [CHR 0x27] @
     ''interruptGenerate'' @ [CHR 0x27] @ '')''"

definition interruptGenerate :: "string option \<Rightarrow> os_state \<Rightarrow> string option \<times> os_state" where
  "interruptGenerate threw s =
     (case engine s of
        None \<Rightarrow> (Some NULL_ENGINE_ERROR, s)
      | Some m \<Rightarrow> (threw, effect InterruptGenerate s))"

definition stream_chunk ::
  "string \<Rightarrow> int \<Rightarrow> int \<Rightarrow> string option \<Rightarrow> string option \<Rightarrow> os_state \<Rightarrow> int option \<times> os_state" where
  "stream_chunk rid lastChunkTime now delta threw s =
     (if isAborted rid s
      then (case interruptGenerate threw s of
              (Some e, s1) \<Rightarrow> (None, stream_threw rid e s1)
            | (None, s1) \<Rightarrow>
                (None,
                 unregister rid
                   (effect (SendMessage (STREAM_CHUNK (errorChunk rid ''Request aborted'' (Some True))))
                      s1)))
      else if now - lastChunkTime > CHUNK_TIMEOUT_MS
      then (case interruptGenerate threw s of
              (Some e, s1) \<Rightarrow> (None, stream_threw rid e s1)
            | (None, s1) \<Rightarrow>
                (None,
                 stream_threw rid ''Error: Stream stalled - no chunk received for 30000ms'' s1))
      else (Some now,
            if truthy delta
            then effect (SendMessage (STREAM_CHUNK
                   \<lparr>requestId = rid, chunk = delta, chunk_done = None, chunk_error = None,
                    usage = None\<rparr>)) s
            else s))"

definition stream_end :: "string \<Rightarrow> string option \<Rightarrow> os_state \<Rightarrow> os_state" where
  "stream_end rid u s =
     unregister rid
       (effect (SendMessage (STREAM_CHUNK
          \<lparr>requestId = rid, chunk = None, chunk_done = Some True, chunk_error = None,
           usage = u\<rparr>)) s)"

text \<open>
  \<open>summarizePage\<close>, whose request id is made of the time of the call: the start, an
  exception, one iteration of the loop with the summary so far, and the end.
\<close>

definition summarizeMessages :: "string \<Rightarrow> string \<Rightarrow> chat_message list" where
  "summarizeMessages title cont =
     [\<lparr>role = ''system'',
       content = ''You are a helpful assistant that summarizes web pages. Create a concise summary with key points (5-10 bullet points). Focus on: main topics, key facts, important details, and actionable information. Be brief but comprehensive.''\<rparr>,
      \<lparr>role = ''user'',
       content = ''Summarize this webpage:\<newline>\<newline>Title: '' @ title @ ''\<newline>\<newline>Content:\<newline>'' @ cont\<rparr>]"

definition summarizeId :: "nat \<Rightarrow> string" where
  "summarizeId now = ''summarize_'' @ show_nat now"

definition summarizePage_begin :: "nat \<Rightarrow> string \<Rightarrow> string \<Rightarrow> os_state \<Rightarrow> string + os_state" where
  "summarizePage_begin now title cont s =
     (if notReady s then Inl ''Error: Engine not ready''
      else Inr (effect (ChatCreate True (summarizeMessages title cont))
                  (register (summarizeId now) s)))"

definition summarize_threw :: "string \<Rightarrow> string \<Rightarrow> os_state \<Rightarrow> string \<times> os_state" where
  "summarize_threw rid e s = (e, unregister rid s)"

definition summarize_chunk ::
  "string \<Rightarrow> int \<Rightarrow> int \<Rightarrow> string option \<Rightarrow> string option \<Rightarrow> string \<Rightarrow> os_state \<Rightarrow>
   (string + int \<times> string) \<times> os_state" where
  "summarize_chunk rid lastChunkTime now delta threw summ s =
     (if isAborted rid s
      then (case interruptGenerate threw s of
              (Some e, s1) \<Rightarrow> (Inl e, unregister rid s1)
            | (None, s1) \<Rightarrow> (Inl ''Error: Request aborted'', unregister rid s1))
      else if now - lastChunkTime > CHUNK_TIMEOUT_MS
      then (case interruptGenerate threw s of
              (Some e, s1) \<Rightarrow> (Inl e, unregister rid s1)
            | (None, s1) \<Rightarrow>
                (Inl ''Error: Stream stalled - no chunk received for 30000ms'', unregister rid s1))
      else (Inr (now, if truthy delta then summ @ the delta else summ), s))"

definition summarize_end :: "string \<Rightarrow> string \<Rightarrow> os_state \<Rightarrow> string \<times> os_state" where
  "summarize_end rid summ s = (summ, unregister rid s)"

subsection \<open>Observations on the log of effects\<close>

text \<open>The number of engine builds for a model.\<close>

definition builds :: "string \<Rightarrow> os_effect list \<Rightarrow> nat" where
  "builds m effs = length (filter (\<lambda>e. e = CreateMLCEngine m) effs)"

text \<open>
  Whether a terminal chunk (done, or with an error text) for a request was sent before
  the first build of a model.
\<close>

fun notifiedBeforeBuild :: "string \<Rightarrow> string \<Rightarrow> os_effect list \<Rightarrow> bool" where
  "notifiedBeforeBuild rid m [] = False"
| "notifiedBeforeBuild rid m (CreateMLCEngine m' # es) =
     (if m' = m then False else notifiedBeforeBuild rid m es)"
| "notifiedBeforeBuild rid m (SendMessage (STREAM_CHUNK c) # es) =
     ((requestId c = rid \<and> terminal c) \<or> notifiedBeforeBuild rid m es)"
| "notifiedBeforeBuild rid m (e # es) = notifiedBeforeBuild rid m es"

subsection \<open>States and runs of the offscreen document\<close>

definition osReady :: os_state where
  "osReady =
     \<lparr>engine = Some ''A'', os_isEngineInitializing = False, engineReady = True,
      os_currentModelId = ''A'', activeRequests = [], effects = []\<rparr>"

definition osCold :: os_state where
  "osCold =
     \<lparr>engine = None, os_isEngineInitializing = False, engineReady = False,
      os_currentModelId = [], activeRequests = [], effects = []\<rparr>"

definition hello :: "chat_message list" where
  "hello = [\<lparr>role = ''user'', content = ''Hello''\<rparr>]"

definition streamingState :: os_state where
  "streamingState = snd (chatCompletionStream_begin ''req_1'' hello osReady)"

text \<open>A model swap while a stream is active, with and without a chunk during the unload.\<close>

definition swapRun :: os_state where
  "swapRun = snd (initEngine_unloaded ''B'' (snd (initEngine_begin (Some ''B'') streamingState)))"

definition swapRunChunk :: os_state where
  "swapRunChunk =
     snd (initEngine_unloaded ''B''
       (snd (stream_chunk ''req_1'' 0 5 (Some ''Hi'') None
          (snd (initEngine_begin (Some ''B'') streamingState)))))"

text \<open>The same swap, with the next chunk of the old stream arriving late, after the unload.\<close>

definition swapRunStalled :: os_state where
  "swapRunStalled = snd (stream_chunk ''req_1'' 0 40000 (Some ''Hi'') None swapRun)"

text \<open>Two \<open>INIT_ENGINE\<close> requests for model B, the second during the unload of model A.\<close>

definition doubleSwapRun :: os_state where
  "doubleSwapRun =
     snd (initEngine_unloaded ''B''
       (snd (initEngine_unloaded ''B''
          (snd (initEngine_begin (Some ''B'')
             (snd (initEngine_begin (Some ''B'') osReady)))))))"

subsection \<open>Runs of the background service worker\<close>

text \<open>A stream started while the engine is loading, on a port that closes meanwhile.\<close>

definition coldState :: bg_state where
  "coldState = initialState\<lparr>offscreenDocumentCreated := True\<rparr>"

definition hiChunk :: StreamChunk where
  "hiChunk = \<lparr>requestId = ''req_1'', chunk = Some ''Hi'', chunk_done = None,
              chunk_error = None, usage = None\<rparr>"

definition lateRegistration :: bg_state where
  "lateRegistration =
     chatStreamStart_resume 7 ''req_1'' hello
       (initializeEngine_reply ''Qwen3-1.7B-q4f16_1-MLC'' (InitResponse ''ready'' None))
       (onEngineReady
          (onDisconnect 7
             (snd (initializeEngine_provisioned ContextExists ''Qwen3-1.7B-q4f16_1-MLC''
                (snd (chatStreamStart_begin 7 ''req_1'' hello coldState))))))"

text \<open>Two \<open>CHANGE_MODEL\<close> messages for model B, each followed by its \<open>INIT_ENGINE\<close>.\<close>

definition changeModelOnce :: "bg_state \<Rightarrow> bg_state" where
  "changeModelOnce s =
     snd (initializeEngine_provisioned ContextExists ''B'' (snd (onChangeModel (Some ''B'') s)))"

section \<open>Properties of the parser\<close>

text \<open>
  The character functions on the eight bits of a character, for evaluation.
\<close>

lemma toLowerChar_bits [code]:
  "toLowerChar (Char b0 b1 b2 b3 b4 b5 b6 b7) =
     (if b6 \<and> \<not> b5 \<and>
         (if b7 then \<not> (b0 \<and> b1 \<and> b2 \<and> b4)
          else (b0 \<or> b1 \<or> b2 \<or> b3 \<or> b4) \<and> \<not> (b4 \<and> b3 \<and> (b2 \<or> b1 \<and> b0)))
      then Char b0 b1 b2 b3 b4 True b6 b7 else Char b0 b1 b2 b3 b4 b5 b6 b7)"
  by (cases b0; cases b1; cases b2; cases b3; cases b4; cases b5; cases b6; cases b7;
      simp add: toLowerChar_def char_of_def bit_Suc_0_iff)

lemma canonicalize_bits [code]:
  "canonicalize (Char b0 b1 b2 b3 b4 b5 b6 b7) =
     (if \<not> b7 \<and> b6 \<and> b5 \<and> (b0 \<or> b1 \<or> b2 \<or> b3 \<or> b4) \<and>
         \<not> (b4 \<and> b3 \<and> (b2 \<or> b1 \<and> b0))
      then Char b0 b1 b2 b3 b4 False b6 b7 else Char b0 b1 b2 b3 b4 b5 b6 b7)"
  by (cases b0; cases b1; cases b2; cases b3; cases b4; cases b5; cases b6; cases b7;
      simp add: canonicalize_def char_of_def bit_Suc_0_iff)

lemma isSpace_bits [code]:
  "isSpace (Char b0 b1 b2 b3 b4 b5 b6 b7) =
     (if b5 then \<not> b0 \<and> \<not> b1 \<and> \<not> b2 \<and> \<not> b3 \<and> \<not> b4 \<and> \<not> b6
      else \<not> b7 \<and> \<not> b6 \<and> \<not> b4 \<and> b3 \<and> (b0 \<or> b1 \<or> b2) \<and> \<not> (b2 \<and> b1))"
  by (cases b0; cases b1; cases b2; cases b3; cases b4; cases b5; cases b6; cases b7;
      simp add: isSpace_def)

declare js_match.simps [simp del]
declare show_nat.simps [simp del]

lemma sameLetters_length: "sameLetters u w \<Longrightarrow> length u = length w"
  unfolding sameLetters_def by (rule map_eq_imp_length_eq)

lemma canon_star: "canonicalize c = canonicalize CHR ''*'' \<longleftrightarrow> c = CHR ''*''"
  by (cases c) (auto simp: canonicalize_bits split: if_splits)

lemma canon_colon: "canonicalize c = canonicalize CHR '':'' \<longleftrightarrow> c = CHR '':''"
  by (cases c) (auto simp: canonicalize_bits split: if_splits)

lemma rmatch_lit_i:
  "rmatch (lit_i w) s cap =
     (if length w \<le> length s \<and> sameLetters (take (length w) s) w
      then [(drop (length w) s, cap)] else [])"
proof (induction w arbitrary: s)
  case Nil
  show ?case by (simp add: lit_i_def sameLetters_def)
next
  case (Cons a w)
  have l: "lit_i (a # w) = Seq (Chr (\<lambda>x. canonicalize x = canonicalize a)) (lit_i w)"
    by (simp add: lit_i_def)
  show ?case
  proof (cases s)
    case Nil
    then show ?thesis by (simp add: l)
  next
    case (Cons c t)
    then show ?thesis using Cons.IH [of t] by (simp add: l sameLetters_def)
  qed
qed

lemma rmatch_Seq_lit:
  "rmatch (Seq (lit_i w) b) s cap =
     (if length w \<le> length s \<and> sameLetters (take (length w) s) w
      then rmatch b (drop (length w) s) cap else [])"
  by (auto simp: rmatch_lit_i)

lemma concat_all_empty: "(\<And>k. k \<in> set ks \<Longrightarrow> f k = []) \<Longrightarrow> concat (map f ks) = []"
  by (induction ks) auto

lemma rmatch_Rep_Seq:
  "rmatch (Seq (Rep p lo hi) b) s cap =
     concat (map (\<lambda>k. rmatch b (drop k s) cap)
       (rev [lo..<Suc (case hi of None \<Rightarrow> length (takeWhile p s)
                        | Some h \<Rightarrow> min h (length (takeWhile p s)))]))"
  by (simp add: Let_def comp_def)

lemma drop_in_run:
  assumes "k < length (takeWhile p s)"
  shows "\<exists>c t. drop k s = c # t \<and> p c"
proof -
  have k: "k < length s" using assms length_takeWhile_le [of p s] by simp
  have "p (s ! k)" using assms by (metis nth_mem set_takeWhileD takeWhile_nth)
  moreover have "drop k s = s ! k # drop (Suc k) s" using k by (simp add: Cons_nth_drop_Suc)
  ultimately show ?thesis by blast
qed

lemma rmatch_Rep_fails:
  assumes fail: "\<And>c t. p c \<Longrightarrow> rmatch b (c # t) cap = []"
  shows "rmatch (Seq (Rep p 0 hi) b) s cap =
     (if (case hi of None \<Rightarrow> True | Some h \<Rightarrow> length (takeWhile p s) \<le> h)
      then rmatch b (dropWhile p s) cap else [])"
proof -
  let ?n = "length (takeWhile p s)"
  let ?f = "\<lambda>k. rmatch b (drop k s) cap"
  have below: "?f k = []" if "k < ?n" for k
    using drop_in_run [OF that] fail by auto
  have full: "concat (map ?f (rev [0..<Suc ?n])) = rmatch b (dropWhile p s) cap"
  proof -
    have "concat (map ?f (rev [0..<?n])) = []"
      by (rule concat_all_empty) (simp add: below)
    then show ?thesis by (simp add: dropWhile_eq_drop)
  qed
  show ?thesis
  proof (cases hi)
    case None
    then show ?thesis using full by (simp add: rmatch_Rep_Seq del: rmatch.simps upt_Suc)
  next
    case (Some h)
    show ?thesis
    proof (cases "?n \<le> h")
      case True
      then have "min h ?n = ?n" by simp
      with Some True full show ?thesis by (simp add: rmatch_Rep_Seq del: rmatch.simps upt_Suc)
    next
      case False
      then have m: "min h ?n = h" and "h < ?n" by simp_all
      then have "concat (map ?f (rev [0..<Suc h])) = []"
        by (intro concat_all_empty) (auto intro: below)
      with Some False m show ?thesis by (simp add: rmatch_Rep_Seq del: rmatch.simps upt_Suc)
    qed
  qed
qed

lemma colon_here:
  "rmatch (Seq (lit_i '':'') b) s cap =
     (case s of [] \<Rightarrow> [] | c # rest \<Rightarrow> if c = CHR '':'' then rmatch b rest cap else [])"
  by (cases s) (simp_all add: rmatch_Seq_lit sameLetters_def canon_colon del: rmatch.simps)

lemma colon_fails_on_star: "isStar c \<Longrightarrow> rmatch (Seq (lit_i '':'') b) (c # t) cap = []"
  by (simp add: colon_here isStar_def del: rmatch.simps)

lemma word_fails_on_star:
  assumes "canonicalize a \<noteq> canonicalize CHR ''*''" and "isStar c"
  shows "rmatch (Seq (lit_i (a # w)) b) (c # t) cap = []"
  using assms by (auto simp: rmatch_Seq_lit sameLetters_def isStar_def simp del: rmatch.simps)

lemma rmatch_token:
  assumes a: "canonicalize a \<noteq> canonicalize CHR ''*''"
  shows "rmatch (token_re (a # w) g) s cap =
     (if length (takeWhile isStar s) \<le> 2
      then (case tokenHere (a # w) (dropWhile isStar s) of
              None \<Rightarrow> []
            | Some rest \<Rightarrow> rmatch (Seq (Rep isSpace 0 None) (Grp g)) rest cap)
      else [])"
proof -
  let ?X = "Seq (Rep isSpace 0 None) (Grp g)"
  let ?C = "Seq (lit_i '':'') ?X"
  let ?S = "Seq (Rep isStar 0 (Some 2)) ?C"
  let ?W = "Seq (lit_i (a # w)) ?S"
  have S: "rmatch ?S t cap =
     (if length (takeWhile isStar t) \<le> 2
      then (case dropWhile isStar t of [] \<Rightarrow> []
            | c # rest \<Rightarrow> if c = CHR '':'' then rmatch ?X rest cap else [])
      else [])" for t
    using rmatch_Rep_fails [of isStar ?C cap "Some 2" t, OF colon_fails_on_star]
    by (simp add: colon_here del: rmatch.simps)
  have W: "rmatch ?W u cap =
     (case tokenHere (a # w) u of None \<Rightarrow> [] | Some rest \<Rightarrow> rmatch ?X rest cap)" for u
  proof -
    define P where "P \<longleftrightarrow> length (a # w) \<le> length u \<and> sameLetters (take (length (a # w)) u) (a # w)"
    define t where "t = drop (length (a # w)) u"
    have R: "rmatch ?W u cap = (if P then rmatch ?S t cap else [])"
      unfolding P_def t_def by (rule rmatch_Seq_lit)
    have T: "tokenHere (a # w) u =
       (if P then (if length (takeWhile isStar t) \<le> 2
                   then (case dropWhile isStar t of [] \<Rightarrow> None
                         | c # rest \<Rightarrow> if c = CHR '':'' then Some rest else None)
                   else None)
        else None)"
      unfolding P_def t_def tokenHere_def Let_def ..
    show ?thesis
      unfolding R T S
      by (cases P; cases "dropWhile isStar t") (simp_all del: rmatch.simps dropWhile_eq_Nil_conv)
  qed
  have "rmatch (Seq (Rep isStar 0 (Some 2)) ?W) s cap =
     (if length (takeWhile isStar s) \<le> 2 then rmatch ?W (dropWhile isStar s) cap else [])"
    using rmatch_Rep_fails [of isStar ?W cap "Some 2" s, OF word_fails_on_star [OF a]]
    by (simp del: rmatch.simps)
  then show ?thesis unfolding token_re_def W .
qed

lemma js_match_unfold:
  "js_match r s =
     (case firstCap (rmatch r s None) of
        Some cap \<Rightarrow> Some cap
      | None \<Rightarrow> (case s of [] \<Rightarrow> None | c # cs \<Rightarrow> js_match r cs))"
  by (simp add: js_match.simps [of r s] firstCap_def split: list.splits prod.splits)

lemma firstCap_simps [simp]:
  "firstCap [] = None"
  "firstCap ((s', cap) # ys) = Some cap"
  by (simp_all add: firstCap_def)

lemma firstCap_append: "xs \<noteq> [] \<Longrightarrow> firstCap (xs @ ys) = firstCap xs"
  by (cases xs) (auto simp: firstCap_def)

lemma takeWhile_True: "takeWhile (\<lambda>c. True) x = x"
  by (induction x) simp_all

lemma any_grp:
  "\<exists>ys. rmatch (Grp (Rep (\<lambda>c. True) 0 None)) x cap = ([], Some x) # ys"
  by (simp add: takeWhile_True)

lemma any_group:
  "firstCap (rmatch (Seq (Rep isSpace 0 None) (Grp (Rep (\<lambda>c. True) 0 None))) rest cap) =
     Some (Some (dropWhile isSpace rest))"
proof -
  let ?f = "\<lambda>k. rmatch (Grp (Rep (\<lambda>c. True) 0 None)) (drop k rest) cap"
  let ?n = "length (takeWhile isSpace rest)"
  obtain ys where ys: "?f ?n = ([], Some (dropWhile isSpace rest)) # ys"
    using any_grp [of "drop ?n rest" cap] by (auto simp: dropWhile_eq_drop)
  have "rmatch (Seq (Rep isSpace 0 None) (Grp (Rep (\<lambda>c. True) 0 None))) rest cap =
        ?f ?n @ concat (map ?f (rev [0..<?n]))"
    by (simp add: rmatch_Rep_Seq del: rmatch.simps)
  then show ?thesis by (simp only: ys) simp
qed

lemma space_not_yes_no:
  "isSpace c \<Longrightarrow> canonicalize c \<noteq> canonicalize CHR ''y'' \<and> canonicalize c \<noteq> canonicalize CHR ''n''"
  by (cases c) (auto simp: canonicalize_bits isSpace_bits split: if_splits)

lemma yesno_fails_on_space:
  "isSpace c \<Longrightarrow> rmatch (Grp (Alt (lit_i ''yes'') (lit_i ''no''))) (c # t) cap = []"
  using space_not_yes_no [of c] by (simp add: rmatch_lit_i sameLetters_def)

lemma lit_yes_no:
  "rmatch (lit_i ''yes'') x cap =
     (if 3 \<le> length x \<and> sameLetters (take 3 x) ''yes'' then [(drop 3 x, cap)] else [])"
  "rmatch (lit_i ''no'') x cap =
     (if 2 \<le> length x \<and> sameLetters (take 2 x) ''no'' then [(drop 2 x, cap)] else [])"
  using rmatch_lit_i [of "''yes''" x cap] rmatch_lit_i [of "''no''" x cap]
  by (simp_all add: numeral_3_eq_3 numeral_2_eq_2)

lemma yesno_grp:
  "firstCap (rmatch (Grp (Alt (lit_i ''yes'') (lit_i ''no''))) x cap) = map_option Some (yesNoHere x)"
proof -
  define Y where "Y \<longleftrightarrow> 3 \<le> length x \<and> sameLetters (take 3 x) ''yes''"
  define N where "N \<longleftrightarrow> 2 \<le> length x \<and> sameLetters (take 2 x) ''no''"
  have y: "rmatch (lit_i ''yes'') x cap = (if Y then [(drop 3 x, cap)] else [])"
    and n: "rmatch (lit_i ''no'') x cap = (if N then [(drop 2 x, cap)] else [])"
    unfolding Y_def N_def by (rule lit_yes_no)+
  have h: "yesNoHere x = (if Y then Some (take 3 x) else if N then Some (take 2 x) else None)"
    unfolding Y_def N_def yesNoHere_def ..
  have l3: "Y \<Longrightarrow> length x - (length x - 3) = 3" and l2: "N \<Longrightarrow> length x - (length x - 2) = 2"
    unfolding Y_def N_def by simp_all
  show ?thesis
    by (cases Y; cases N) (simp_all add: y n h l3 l2)
qed

lemma yesno_group:
  "firstCap (rmatch (Seq (Rep isSpace 0 None) (Grp (Alt (lit_i ''yes'') (lit_i ''no'')))) rest cap) =
     map_option Some (yesNoHere (dropWhile isSpace rest))"
proof -
  have "rmatch (Seq (Rep isSpace 0 None) (Grp (Alt (lit_i ''yes'') (lit_i ''no'')))) rest cap =
        rmatch (Grp (Alt (lit_i ''yes'') (lit_i ''no''))) (dropWhile isSpace rest) cap"
    using rmatch_Rep_fails [of isSpace "Grp (Alt (lit_i ''yes'') (lit_i ''no''))" cap None rest,
        OF yesno_fails_on_space]
    by (simp del: rmatch.simps)
  then show ?thesis by (simp only: yesno_grp)
qed

lemma js_match_firstBy:
  assumes H: "\<And>s. firstCap (rmatch r s None) =
                (if length (takeWhile isStar s) \<le> 2 then F (dropWhile isStar s) else None)"
    and S: "\<And>c t. isStar c \<Longrightarrow> F (c # t) = None"
  shows "js_match r s = firstBy F s"
proof (induction s)
  case Nil
  show ?case using H [of "[]"] by (simp add: js_match_unfold [of r "[]"] split: option.splits)
next
  case (Cons c cs)
  show ?case
  proof (cases "isStar c")
    case False
    then have "firstCap (rmatch r (c # cs) None) = F (c # cs)" using H [of "c # cs"] by simp
    then show ?thesis using Cons.IH
      by (simp add: js_match_unfold [of r "c # cs"] split: option.splits)
  next
    case True
    note star = this
    have F: "F (c # cs) = None" by (rule S [OF True])
    show ?thesis
    proof (cases "firstCap (rmatch r (c # cs) None)")
      case None
      then show ?thesis using Cons.IH F by (simp add: js_match_unfold [of r "c # cs"])
    next
      case (Some cap)
      with H [of "c # cs"] star
      have l: "Suc (length (takeWhile isStar cs)) \<le> 2" and f: "F (dropWhile isStar cs) = Some cap"
        by (simp_all split: if_splits)
      then have "firstCap (rmatch r cs None) = Some cap" using H [of cs] by simp
      then have c: "js_match r cs = Some cap" by (simp add: js_match_unfold [of r cs])
      have j: "js_match r (c # cs) = Some cap"
        using Some by (simp add: js_match_unfold [of r "c # cs"])
      have "firstBy F (c # cs) = firstBy F cs" using F by simp
      also have "\<dots> = js_match r cs" using Cons.IH by simp
      finally show ?thesis using j c by simp
    qed
  qed
qed

lemma tokenHere_star:
  assumes "canonicalize a \<noteq> canonicalize CHR ''*''" and "isStar c"
  shows "tokenHere (a # w) (c # t) = None"
  using assms by (auto simp: tokenHere_def sameLetters_def isStar_def)

lemma letter_not_star:
  "canonicalize CHR ''a'' \<noteq> canonicalize CHR ''*''"
  "canonicalize CHR ''s'' \<noteq> canonicalize CHR ''*''"
  by (simp_all add: canonicalize_bits)

lemma js_match_answer: "js_match re_answer s = firstBy answerHere s"
proof (rule js_match_firstBy)
  fix s
  show "firstCap (rmatch re_answer s None) =
          (if length (takeWhile isStar s) \<le> 2 then answerHere (dropWhile isStar s) else None)"
    unfolding re_answer_def
    by (subst rmatch_token [of "CHR ''a''" "''nswer''", OF letter_not_star(1)])
       (simp add: answerHere_def any_group split: option.splits del: rmatch.simps)
next
  fix c t assume "isStar c"
  then show "answerHere (c # t) = None"
    by (simp add: answerHere_def tokenHere_star [OF letter_not_star(1)])
qed

lemma js_match_sufficient: "js_match re_sufficient s = firstBy sufficientHere s"
proof (rule js_match_firstBy)
  fix s
  show "firstCap (rmatch re_sufficient s None) =
          (if length (takeWhile isStar s) \<le> 2 then sufficientHere (dropWhile isStar s) else None)"
    unfolding re_sufficient_def
    by (subst rmatch_token [of "CHR ''s''" "''ufficient''", OF letter_not_star(2)])
       (simp add: sufficientHere_def yesno_group split: option.splits del: rmatch.simps)
next
  fix c t assume "isStar c"
  then show "sufficientHere (c # t) = None"
    by (simp add: sufficientHere_def tokenHere_star [OF letter_not_star(2)])
qed

lemma tokenHere_iff:
  "tokenHere w s = Some rest \<longleftrightarrow>
     (\<exists>u st. s = u @ st @ CHR '':'' # rest \<and> sameLetters u w \<and> list_all isStar st \<and> length st \<le> 2)"
proof
  assume h: "tokenHere w s = Some rest"
  define t where "t = drop (length w) s"
  from h have c: "length w \<le> length s" "sameLetters (take (length w) s) w"
    and l: "length (takeWhile isStar t) \<le> 2"
    and d: "dropWhile isStar t = CHR '':'' # rest"
    by (auto simp: tokenHere_def t_def Let_def split: if_splits list.splits)
  have "s = take (length w) s @ t" by (simp add: t_def)
  also have "t = takeWhile isStar t @ dropWhile isStar t" by simp
  finally have "s = take (length w) s @ takeWhile isStar t @ CHR '':'' # rest" using d by simp
  moreover have "list_all isStar (takeWhile isStar t)"
    by (auto simp: list_all_iff dest: set_takeWhileD)
  ultimately show "\<exists>u st. s = u @ st @ CHR '':'' # rest \<and> sameLetters u w \<and> list_all isStar st \<and>
      length st \<le> 2"
    using c l by blast
next
  assume "\<exists>u st. s = u @ st @ CHR '':'' # rest \<and> sameLetters u w \<and> list_all isStar st \<and> length st \<le> 2"
  then obtain u st where s: "s = u @ st @ CHR '':'' # rest" and u: "sameLetters u w"
    and st: "list_all isStar st" "length st \<le> 2" by blast
  have lu: "length u = length w" by (rule sameLetters_length [OF u])
  have tw: "takeWhile isStar (st @ CHR '':'' # rest) = st"
    using st(1) by (simp add: takeWhile_append2 list_all_iff isStar_def)
  have dw: "dropWhile isStar (st @ CHR '':'' # rest) = CHR '':'' # rest"
    using st(1) by (simp add: dropWhile_append2 list_all_iff isStar_def)
  show "tokenHere w s = Some rest"
    unfolding tokenHere_def using u st(2) by (simp add: s lu [symmetric] tw dw)
qed

lemma yes_no_head:
  assumes "sameLetters v ''yes'' \<or> sameLetters v ''no''"
  shows "\<exists>c v'. v = c # v' \<and> \<not> isSpace c"
proof -
  from assms obtain c v' where v: "v = c # v'" by (cases v) (auto simp: sameLetters_def)
  with assms have "canonicalize c = canonicalize CHR ''y'' \<or> canonicalize c = canonicalize CHR ''n''"
    by (auto simp: sameLetters_def)
  with space_not_yes_no [of c] v show ?thesis by blast
qed

lemma yes_not_no:
  "canonicalize CHR ''n'' \<noteq> canonicalize CHR ''y''"
  by (simp add: canonicalize_bits)

lemma yesNoHere_iff:
  "yesNoHere (dropWhile isSpace rest) = Some v \<longleftrightarrow>
     (\<exists>ws tl. rest = ws @ v @ tl \<and> list_all isSpace ws \<and>
        (sameLetters v ''yes'' \<or> sameLetters v ''no''))"
proof
  define x where "x = dropWhile isSpace rest"
  assume "yesNoHere (dropWhile isSpace rest) = Some v"
  then have "(v = take 3 x \<and> 3 \<le> length x \<and> sameLetters v ''yes'') \<or>
             (v = take 2 x \<and> 2 \<le> length x \<and> sameLetters v ''no'')"
    by (auto simp: yesNoHere_def x_def split: if_splits)
  then obtain tl where "x = v @ tl" and yn: "sameLetters v ''yes'' \<or> sameLetters v ''no''"
    by (metis append_take_drop_id)
  then have "rest = takeWhile isSpace rest @ v @ tl"
    by (metis takeWhile_dropWhile_id x_def)
  moreover have "list_all isSpace (takeWhile isSpace rest)"
    by (auto simp: list_all_iff dest: set_takeWhileD)
  ultimately show "\<exists>ws tl. rest = ws @ v @ tl \<and> list_all isSpace ws \<and>
        (sameLetters v ''yes'' \<or> sameLetters v ''no'')"
    using yn by blast
next
  assume "\<exists>ws tl. rest = ws @ v @ tl \<and> list_all isSpace ws \<and>
        (sameLetters v ''yes'' \<or> sameLetters v ''no'')"
  then obtain ws tl where r: "rest = ws @ v @ tl" and ws: "list_all isSpace ws"
    and yn: "sameLetters v ''yes'' \<or> sameLetters v ''no''" by blast
  from yes_no_head [OF yn] obtain c v' where v: "v = c # v'" and c: "\<not> isSpace c" by blast
  have d: "dropWhile isSpace rest = v @ tl"
    using ws c by (simp add: r v dropWhile_append2 list_all_iff)
  from yn show "yesNoHere (dropWhile isSpace rest) = Some v"
  proof
    assume y: "sameLetters v ''yes''"
    then have "length v = 3" using sameLetters_length [OF y] by simp
    with y show ?thesis by (simp add: d yesNoHere_def)
  next
    assume n: "sameLetters v ''no''"
    then have l: "length v = 2" using sameLetters_length [OF n] by simp
    from n v have "canonicalize c = canonicalize CHR ''n''" by (simp add: sameLetters_def)
    then have "\<not> sameLetters (take 3 (v @ tl)) ''yes''"
      using yes_not_no by (simp add: v sameLetters_def)
    with n l show ?thesis by (simp add: d yesNoHere_def)
  qed
qed

lemma split_at:
  "(\<exists>pre. r = pre @ t \<and> length pre = p) \<longleftrightarrow> (p \<le> length r \<and> drop p r = t)"
  by (metis append_eq_conv_conj append_take_drop_id length_take min.absorb2 length_append le_add1)

lemma answerTokenAt_iff:
  "answerTokenAt r p rest \<longleftrightarrow> p \<le> length r \<and> tokenHere ''answer'' (drop p r) = Some rest"
proof -
  have "answerTokenAt r p rest \<longleftrightarrow>
        (\<exists>u st. (\<exists>pre. r = pre @ (u @ st @ CHR '':'' # rest) \<and> length pre = p) \<and>
           sameLetters u ''answer'' \<and> list_all isStar st \<and> length st \<le> 2)"
    unfolding answerTokenAt_def by blast
  also have "\<dots> \<longleftrightarrow> p \<le> length r \<and> tokenHere ''answer'' (drop p r) = Some rest"
    unfolding split_at tokenHere_iff by blast
  finally show ?thesis .
qed

lemma sufficientTokenAt_iff:
  "sufficientTokenAt r p v \<longleftrightarrow> p \<le> length r \<and> sufficientHere (drop p r) = Some (Some v)"
proof -
  have "sufficientTokenAt r p v \<longleftrightarrow>
        (\<exists>u st rest. (\<exists>pre. r = pre @ (u @ st @ CHR '':'' # rest) \<and> length pre = p) \<and>
           sameLetters u ''sufficient'' \<and> list_all isStar st \<and> length st \<le> 2 \<and>
           (\<exists>ws tl. rest = ws @ v @ tl \<and> list_all isSpace ws \<and>
              (sameLetters v ''yes'' \<or> sameLetters v ''no'')))"
    unfolding sufficientTokenAt_def by blast
  also have "\<dots> \<longleftrightarrow> p \<le> length r \<and>
        (\<exists>rest. tokenHere ''sufficient'' (drop p r) = Some rest \<and>
                yesNoHere (dropWhile isSpace rest) = Some v)"
    unfolding split_at tokenHere_iff yesNoHere_iff [symmetric] by blast
  also have "\<dots> \<longleftrightarrow> p \<le> length r \<and> sufficientHere (drop p r) = Some (Some v)"
    by (auto simp: sufficientHere_def split: option.splits)
  finally show ?thesis .
qed

lemma all_le_Suc: "(\<forall>p\<le>Suc n. G p) \<longleftrightarrow> G 0 \<and> (\<forall>p\<le>n. G (Suc p))"
proof safe
  fix p assume "G 0" "\<forall>p\<le>n. G (Suc p)" "p \<le> Suc n"
  then show "G p" by (cases p) auto
qed auto

lemma firstBy_None: "firstBy F s = None \<longleftrightarrow> (\<forall>p\<le>length s. F (drop p s) = None)"
proof (induction s)
  case Nil
  show ?case by simp
next
  case (Cons c cs)
  show ?case using Cons.IH by (simp add: all_le_Suc split: option.splits)
qed

lemma firstBy_Some:
  "firstBy F s = Some x \<longleftrightarrow>
     (\<exists>p\<le>length s. F (drop p s) = Some x \<and> (\<forall>q<p. F (drop q s) = None))"
proof (induction s)
  case Nil
  show ?case by simp
next
  case (Cons c cs)
  show ?case
  proof (cases "F (c # cs)")
    case (Some y)
    have "(\<exists>p\<le>length (c # cs). F (drop p (c # cs)) = Some x \<and> (\<forall>q<p. F (drop q (c # cs)) = None))
          \<longleftrightarrow> y = x"
    proof
      assume "\<exists>p\<le>length (c # cs). F (drop p (c # cs)) = Some x \<and> (\<forall>q<p. F (drop q (c # cs)) = None)"
      then obtain p where p: "F (drop p (c # cs)) = Some x" "\<forall>q<p. F (drop q (c # cs)) = None"
        by blast
      have "p = 0"
      proof (rule ccontr)
        assume "p \<noteq> 0"
        then have "F (drop 0 (c # cs)) = None" using p(2) by blast
        with Some show False by simp
      qed
      with p(1) Some show "y = x" by simp
    next
      assume "y = x"
      with Some have "F (drop 0 (c # cs)) = Some x \<and> (\<forall>q<0. F (drop q (c # cs)) = None)" by simp
      then show "\<exists>p\<le>length (c # cs). F (drop p (c # cs)) = Some x \<and>
          (\<forall>q<p. F (drop q (c # cs)) = None)"
        by blast
    qed
    with Some show ?thesis by simp
  next
    case None
    have "(\<exists>p\<le>length (c # cs). F (drop p (c # cs)) = Some x \<and> (\<forall>q<p. F (drop q (c # cs)) = None))
          \<longleftrightarrow> (\<exists>p\<le>length cs. F (drop p cs) = Some x \<and> (\<forall>q<p. F (drop q cs) = None))"
    proof
      assume "\<exists>p\<le>length (c # cs). F (drop p (c # cs)) = Some x \<and> (\<forall>q<p. F (drop q (c # cs)) = None)"
      then obtain p where p: "p \<le> length (c # cs)" "F (drop p (c # cs)) = Some x"
        "\<forall>q<p. F (drop q (c # cs)) = None" by blast
      from p(2) None obtain p' where p': "p = Suc p'" by (cases p) auto
      have "\<forall>q<p'. F (drop q cs) = None"
      proof (intro allI impI)
        fix q assume "q < p'"
        then have "Suc q < p" using p' by simp
        with p(3) have "F (drop (Suc q) (c # cs)) = None" by blast
        then show "F (drop q cs) = None" by simp
      qed
      with p p' show "\<exists>p\<le>length cs. F (drop p cs) = Some x \<and> (\<forall>q<p. F (drop q cs) = None)"
        by auto
    next
      assume "\<exists>p\<le>length cs. F (drop p cs) = Some x \<and> (\<forall>q<p. F (drop q cs) = None)"
      then obtain p where p: "p \<le> length cs" "F (drop p cs) = Some x"
        "\<forall>q<p. F (drop q cs) = None" by blast
      have "\<forall>q<Suc p. F (drop q (c # cs)) = None"
      proof (intro allI impI)
        fix q assume q: "q < Suc p"
        show "F (drop q (c # cs)) = None"
        proof (cases q)
          case 0
          with None show ?thesis by simp
        next
          case (Suc q')
          with q p(3) show ?thesis by simp
        qed
      qed
      with p show "\<exists>p\<le>length (c # cs). F (drop p (c # cs)) = Some x \<and>
          (\<forall>q<p. F (drop q (c # cs)) = None)"
        by (intro exI [of _ "Suc p"]) simp
    qed
    with None Cons.IH show ?thesis by simp
  qed
qed

lemma answerHere_None: "answerHere s = None \<longleftrightarrow> tokenHere ''answer'' s = None"
  by (simp add: answerHere_def)

lemma sufficientHere_cases:
  "sufficientHere s = None \<or> (\<exists>v. sufficientHere s = Some (Some v))"
  by (auto simp: sufficientHere_def split: option.splits)

lemma noAnswerToken_iff: "noAnswerToken r \<longleftrightarrow> js_match re_answer r = None"
proof -
  have "noAnswerToken r \<longleftrightarrow> (\<forall>p\<le>length r. answerHere (drop p r) = None)"
    unfolding noAnswerToken_def answerTokenAt_iff answerHere_None by auto
  then show ?thesis by (simp add: js_match_answer firstBy_None)
qed

lemma firstAnswerToken_iff:
  "firstAnswerToken r p rest \<longleftrightarrow>
     p \<le> length r \<and> tokenHere ''answer'' (drop p r) = Some rest \<and>
     (\<forall>q<p. tokenHere ''answer'' (drop q r) = None)"
proof -
  have "(\<forall>x. \<not> (q \<le> length r \<and> tokenHere ''answer'' (drop q r) = Some x)) \<longleftrightarrow>
        tokenHere ''answer'' (drop q r) = None" if "q < p" "p \<le> length r" for q
    using that by auto
  then show ?thesis
    unfolding firstAnswerToken_def answerTokenAt_iff by (metis (no_types, lifting))
qed

lemma firstAnswerToken_match:
  assumes "firstAnswerToken r p rest"
  shows "js_match re_answer r = Some (Some (dropWhile isSpace rest))"
proof -
  from assms have "p \<le> length r" "answerHere (drop p r) = Some (Some (dropWhile isSpace rest))"
    "\<forall>q<p. answerHere (drop q r) = None"
    by (simp_all add: firstAnswerToken_iff answerHere_def)
  then show ?thesis unfolding js_match_answer firstBy_Some by blast
qed

lemma noSufficientToken_iff: "noSufficientToken r \<longleftrightarrow> js_match re_sufficient r = None"
proof -
  have "noSufficientToken r \<longleftrightarrow> (\<forall>p\<le>length r. sufficientHere (drop p r) = None)"
    unfolding noSufficientToken_def sufficientTokenAt_iff
    using sufficientHere_cases by (metis option.distinct(1) option.inject)
  then show ?thesis by (simp add: js_match_sufficient firstBy_None)
qed

lemma firstSufficientToken_iff:
  "firstSufficientToken r p v \<longleftrightarrow>
     p \<le> length r \<and> sufficientHere (drop p r) = Some (Some v) \<and>
     (\<forall>q<p. sufficientHere (drop q r) = None)"
proof -
  have "(\<forall>x. \<not> (q \<le> length r \<and> sufficientHere (drop q r) = Some (Some x))) \<longleftrightarrow>
        sufficientHere (drop q r) = None" if "q < p" "p \<le> length r" for q
    using that sufficientHere_cases [of "drop q r"] by auto
  then show ?thesis
    unfolding firstSufficientToken_def sufficientTokenAt_iff by (metis (no_types, lifting))
qed

lemma firstSufficientToken_match:
  assumes "firstSufficientToken r p v"
  shows "js_match re_sufficient r = Some (Some v)"
  using assms unfolding firstSufficientToken_iff js_match_sufficient firstBy_Some by blast

lemma answer_token_cases: "noAnswerToken r \<or> (\<exists>p rest. firstAnswerToken r p rest)"
proof (cases "js_match re_answer r")
  case None
  then show ?thesis by (simp add: noAnswerToken_iff)
next
  case (Some g)
  then obtain p where p: "p \<le> length r" "answerHere (drop p r) = Some g"
    "\<forall>q<p. answerHere (drop q r) = None"
    unfolding js_match_answer firstBy_Some by blast
  from p(2) obtain rest where "tokenHere ''answer'' (drop p r) = Some rest"
    by (auto simp: answerHere_def)
  with p have "firstAnswerToken r p rest" by (simp add: firstAnswerToken_iff answerHere_None)
  then show ?thesis by blast
qed

lemma sufficient_token_cases: "noSufficientToken r \<or> (\<exists>p v. firstSufficientToken r p v)"
proof (cases "js_match re_sufficient r")
  case None
  then show ?thesis by (simp add: noSufficientToken_iff)
next
  case (Some g)
  then obtain p where p: "p \<le> length r" "sufficientHere (drop p r) = Some g"
    "\<forall>q<p. sufficientHere (drop q r) = None"
    unfolding js_match_sufficient firstBy_Some by blast
  from p(2) sufficientHere_cases [of "drop p r"] obtain v where "g = Some v" by auto
  with p have "firstSufficientToken r p v" by (simp add: firstSufficientToken_iff)
  then show ?thesis by blast
qed

lemma parse_example_markup:
  "parseSummaryResponse ''**Sufficient**: yes\<newline>**Answer**: Paris'' =
     \<lparr>sufficient = True, answer = ''Paris''\<rparr>"
  by code_simp

lemma parse_example_plain:
  "parseSummaryResponse ''Paris is the capital.'' =
     \<lparr>sufficient = True, answer = ''Paris is the capital.''\<rparr>"
  by code_simp

lemma trim_dropWhile: "trim (dropWhile isSpace x) = trim x"
  by (simp add: trim_def)

text \<open>
  Claim C3, as the code has it.  An answer token is the word \<open>answer\<close> in any letter case,
  at most two stars and a colon; a sufficient token, looked for in the lower-cased reply,
  is the word \<open>sufficient\<close>, at most two stars, a colon, any white space and \<open>yes\<close> or \<open>no\<close>.
  Stars before the word change nothing.  The parser takes the first token of each kind.
  With an answer token the answer is all the text after its colon, trimmed, without its
  leading and trailing stars and trimmed again; the reply is sufficient exactly when it
  has a sufficient token and the first one says \<open>yes\<close>.  With no answer token, a reply
  with no sufficient token either is returned whole, trimmed of white space, as a
  sufficient answer, and a reply with a sufficient token has the empty answer.  Every
  reply is in one of these cases, and the two replies of the specification parse as it
  says.
\<close>

theorem parseSummaryResponse_tokens:
  "parseSummaryResponse ''**Sufficient**: yes\<newline>**Answer**: Paris'' =
     \<lparr>sufficient = True, answer = ''Paris''\<rparr> \<and>
   parseSummaryResponse ''Paris is the capital.'' =
     \<lparr>sufficient = True, answer = ''Paris is the capital.''\<rparr> \<and>
   (noAnswerToken r \<and> noSufficientToken (toLowerCase r) \<longrightarrow>
      parseSummaryResponse r = \<lparr>sufficient = True, answer = trim r\<rparr>) \<and>
   (noAnswerToken r \<and> firstSufficientToken (toLowerCase r) q v \<longrightarrow>
      parseSummaryResponse r = \<lparr>sufficient = (v = ''yes''), answer = []\<rparr>) \<and>
   (firstAnswerToken r p rest \<and> noSufficientToken (toLowerCase r) \<longrightarrow>
      parseSummaryResponse r =
        \<lparr>sufficient = False, answer = trim (stripStars (trim rest))\<rparr>) \<and>
   (firstAnswerToken r p rest \<and> firstSufficientToken (toLowerCase r) q v \<longrightarrow>
      parseSummaryResponse r =
        \<lparr>sufficient = (v = ''yes''), answer = trim (stripStars (trim rest))\<rparr>) \<and>
   (noAnswerToken r \<or> (\<exists>p rest. firstAnswerToken r p rest)) \<and>
   (noSufficientToken (toLowerCase r) \<or> (\<exists>q v. firstSufficientToken (toLowerCase r) q v))"
proof (intro conjI impI)
  show "parseSummaryResponse ''**Sufficient**: yes\<newline>**Answer**: Paris'' =
     \<lparr>sufficient = True, answer = ''Paris''\<rparr>"
    by (rule parse_example_markup)
  show "parseSummaryResponse ''Paris is the capital.'' =
     \<lparr>sufficient = True, answer = ''Paris is the capital.''\<rparr>"
    by (rule parse_example_plain)
  show "noAnswerToken r \<or> (\<exists>p rest. firstAnswerToken r p rest)"
    by (rule answer_token_cases)
  show "noSufficientToken (toLowerCase r) \<or> (\<exists>q v. firstSufficientToken (toLowerCase r) q v)"
    by (rule sufficient_token_cases)
next
  assume "noAnswerToken r \<and> noSufficientToken (toLowerCase r)"
  then show "parseSummaryResponse r = \<lparr>sufficient = True, answer = trim r\<rparr>"
    by (simp add: noAnswerToken_iff noSufficientToken_iff parseSummaryResponse_def)
next
  assume "noAnswerToken r \<and> firstSufficientToken (toLowerCase r) q v"
  then have "js_match re_answer r = None" "js_match re_sufficient (toLowerCase r) = Some (Some v)"
    by (auto simp: noAnswerToken_iff dest: firstSufficientToken_match)
  then show "parseSummaryResponse r = \<lparr>sufficient = (v = ''yes''), answer = []\<rparr>"
    by (simp add: parseSummaryResponse_def)
next
  assume "firstAnswerToken r p rest \<and> noSufficientToken (toLowerCase r)"
  then have "js_match re_answer r = Some (Some (dropWhile isSpace rest))"
    "js_match re_sufficient (toLowerCase r) = None"
    by (auto simp: noSufficientToken_iff dest: firstAnswerToken_match)
  then show "parseSummaryResponse r =
        \<lparr>sufficient = False, answer = trim (stripStars (trim rest))\<rparr>"
    by (simp add: parseSummaryResponse_def trim_dropWhile)
next
  assume "firstAnswerToken r p rest \<and> firstSufficientToken (toLowerCase r) q v"
  then have "js_match re_answer r = Some (Some (dropWhile isSpace rest))"
    "js_match re_sufficient (toLowerCase r) = Some (Some v)"
    by (auto dest: firstSufficientToken_match firstAnswerToken_match)
  then show "parseSummaryResponse r =
        \<lparr>sufficient = (v = ''yes''), answer = trim (stripStars (trim rest))\<rparr>"
    by (simp add: parseSummaryResponse_def trim_dropWhile)
qed

lemma all_less_list: "(\<forall>q<p. P q) \<longleftrightarrow> list_all P [0..<p]"
  by (auto simp: list_all_iff)

lemma firstAnswerToken_code:
  "firstAnswerToken r p rest \<longleftrightarrow>
     p \<le> length r \<and> tokenHere ''answer'' (drop p r) = Some rest \<and>
     list_all (\<lambda>q. tokenHere ''answer'' (drop q r) = None) [0..<p]"
  by (simp add: firstAnswerToken_iff all_less_list)

lemma firstSufficientToken_code:
  "firstSufficientToken r p v \<longleftrightarrow>
     p \<le> length r \<and> sufficientHere (drop p r) = Some (Some v) \<and>
     list_all (\<lambda>q. sufficientHere (drop q r) = None) [0..<p]"
  by (simp add: firstSufficientToken_iff all_less_list)

theorem parseSummaryResponse_tokens_witness:
  "(noAnswerToken ''Paris is the capital.'' \<and>
    noSufficientToken (toLowerCase ''Paris is the capital.'') \<and>
    parseSummaryResponse ''Paris is the capital.'' =
      \<lparr>sufficient = True, answer = ''Paris is the capital.''\<rparr>) \<and>
   (noAnswerToken ''SUFFICIENT:  No'' \<and>
    firstSufficientToken (toLowerCase ''SUFFICIENT:  No'') 0 ''no'' \<and>
    parseSummaryResponse ''SUFFICIENT:  No'' = \<lparr>sufficient = False, answer = []\<rparr>) \<and>
   (firstAnswerToken ''Answer***: x **ANSWER*: ** Paris ** '' 15 '' ** Paris ** '' \<and>
    noSufficientToken (toLowerCase ''Answer***: x **ANSWER*: ** Paris ** '') \<and>
    parseSummaryResponse ''Answer***: x **ANSWER*: ** Paris ** '' =
      \<lparr>sufficient = False, answer = ''Paris''\<rparr>) \<and>
   (firstAnswerToken ''**Sufficient**:\<newline>\<newline>YES answer**: **Paris** '' 21 '' **Paris** '' \<and>
    firstSufficientToken (toLowerCase ''**Sufficient**:\<newline>\<newline>YES answer**: **Paris** '') 2 ''yes'' \<and>
    parseSummaryResponse ''**Sufficient**:\<newline>\<newline>YES answer**: **Paris** '' =
      \<lparr>sufficient = True, answer = ''Paris''\<rparr>)"
proof -
  have a1: "noAnswerToken ''Paris is the capital.''"
    unfolding noAnswerToken_iff by code_simp
  have s1: "noSufficientToken (toLowerCase ''Paris is the capital.'')"
    unfolding noSufficientToken_iff by code_simp
  have t1: "trim ''Paris is the capital.'' = ''Paris is the capital.''" by code_simp
  have a2: "noAnswerToken ''SUFFICIENT:  No''"
    unfolding noAnswerToken_iff by code_simp
  have s2: "firstSufficientToken (toLowerCase ''SUFFICIENT:  No'') 0 ''no''"
    unfolding firstSufficientToken_code by code_simp
  have a3: "firstAnswerToken ''Answer***: x **ANSWER*: ** Paris ** '' 15 '' ** Paris ** ''"
    unfolding firstAnswerToken_code by code_simp
  have s3: "noSufficientToken (toLowerCase ''Answer***: x **ANSWER*: ** Paris ** '')"
    unfolding noSufficientToken_iff by code_simp
  have t3: "trim (stripStars (trim '' ** Paris ** '')) = ''Paris''" by code_simp
  have a4: "firstAnswerToken ''**Sufficient**:\<newline>\<newline>YES answer**: **Paris** '' 21 '' **Paris** ''"
    unfolding firstAnswerToken_code by code_simp
  have s4: "firstSufficientToken (toLowerCase ''**Sufficient**:\<newline>\<newline>YES answer**: **Paris** '') 2 ''yes''"
    unfolding firstSufficientToken_code by code_simp
  have t4: "trim (stripStars (trim '' **Paris** '')) = ''Paris''" by code_simp
  note T = parseSummaryResponse_tokens
  note w1 = T [where r = "''Paris is the capital.''", THEN conjunct2, THEN conjunct2,
      THEN conjunct1, THEN mp, OF conjI, OF a1 s1, unfolded t1]
  note w2 = T [where r = "''SUFFICIENT:  No''" and q = 0 and v = "''no''",
      THEN conjunct2, THEN conjunct2, THEN conjunct2, THEN conjunct1, THEN mp, OF conjI, OF a2 s2]
  note w3 = T [where r = "''Answer***: x **ANSWER*: ** Paris ** ''" and p = 15
      and rest = "'' ** Paris ** ''",
      THEN conjunct2, THEN conjunct2, THEN conjunct2, THEN conjunct2, THEN conjunct1,
      THEN mp, OF conjI, OF a3 s3, unfolded t3]
  note w4 = T [where r = "''**Sufficient**:\<newline>\<newline>YES answer**: **Paris** ''" and p = 21
      and rest = "'' **Paris** ''" and q = 2 and v = "''yes''",
      THEN conjunct2, THEN conjunct2, THEN conjunct2, THEN conjunct2, THEN conjunct2,
      THEN conjunct1, THEN mp, OF conjI, OF a4 s4, unfolded t4]
  have w2': "parseSummaryResponse ''SUFFICIENT:  No'' = \<lparr>sufficient = False, answer = []\<rparr>"
    using w2 by simp
  have w4': "parseSummaryResponse ''**Sufficient**:\<newline>\<newline>YES answer**: **Paris** '' =
      \<lparr>sufficient = True, answer = ''Paris''\<rparr>"
    using w4 by simp
  from a1 s1 w1 a2 s2 w2' a3 s3 w3 a4 s4 w4' show ?thesis
    by (intro conjI) assumption+
qed

text \<open>
  The reply \<open>Answer: Paris\<close> has no sufficient token, and is not returned whole as a
  sufficient answer: the answer token is found, so the reply counts as insufficient.
\<close>

theorem parseSummaryResponse_fallback_counterexample:
  "\<not> (js_match re_sufficient (toLowerCase ''Answer: Paris'') = None \<longrightarrow>
      parseSummaryResponse ''Answer: Paris'' = \<lparr>sufficient = True, answer = ''Answer: Paris''\<rparr>)"
proof -
  have "js_match re_sufficient (toLowerCase ''Answer: Paris'') = None"
    by code_simp
  moreover have "parseSummaryResponse ''Answer: Paris'' = \<lparr>sufficient = False, answer = ''Paris''\<rparr>"
    by code_simp
  ultimately show ?thesis by simp
qed

section \<open>Properties of the multi-tab query\<close>

lemma processTab_direct_ok:
  assumes "usesSummary tabInfo = None"
    and "answerFromContent eng (tab_content tabInfo) q st = (Inr a, st')"
  shows "processTab eng tabInfo q st = (tabResult tabInfo a (relevantDirect a), st')"
  using assms
  by (auto simp: processTab_def directAnswer_def usesSummary_def tabResult_def
      split: option.splits list.splits bool.splits)

lemma processTab_direct_fail:
  assumes "usesSummary tabInfo = None"
    and "answerFromContent eng (tab_content tabInfo) q st = (Inl e, st')"
  shows "processTab eng tabInfo q st = (tabResult tabInfo ''Error processing this tab'' False, st')"
  using assms
  by (auto simp: processTab_def directAnswer_def usesSummary_def tabResult_def
      split: option.splits list.splits bool.splits)

lemma processTab_summary_fail:
  assumes "usesSummary tabInfo = Some s"
    and "silentChat eng (summaryMessages s q) st = (Inl e, st1)"
  shows "processTab eng tabInfo q st = (tabResult tabInfo ''Error processing this tab'' False, st1)"
  using assms
  by (auto simp: processTab_def directAnswer_def usesSummary_def tabResult_def
      split: option.splits list.splits bool.splits)

lemma processTab_summary_sufficient:
  assumes "usesSummary tabInfo = Some s"
    and "silentChat eng (summaryMessages s q) st = (Inr resp, st1)"
    and "sufficient (parseSummaryResponse resp)"
  shows "processTab eng tabInfo q st =
     (tabResult tabInfo (answer (parseSummaryResponse resp))
        (relevantSummary (answer (parseSummaryResponse resp))), st1)"
  using assms
  by (auto simp: processTab_def directAnswer_def usesSummary_def tabResult_def Let_def
      split: option.splits list.splits bool.splits)

lemma processTab_summary_insufficient_ok:
  assumes "usesSummary tabInfo = Some s"
    and "silentChat eng (summaryMessages s q) st = (Inr resp, st1)"
    and "\<not> sufficient (parseSummaryResponse resp)"
    and "answerFromContent eng (tab_content tabInfo) q st1 = (Inr a, st')"
  shows "processTab eng tabInfo q st = (tabResult tabInfo a (relevantDirect a), st')"
  using assms
  by (auto simp: processTab_def directAnswer_def usesSummary_def tabResult_def Let_def
      split: option.splits list.splits bool.splits)

lemma processTab_summary_insufficient_fail:
  assumes "usesSummary tabInfo = Some s"
    and "silentChat eng (summaryMessages s q) st = (Inr resp, st1)"
    and "\<not> sufficient (parseSummaryResponse resp)"
    and "answerFromContent eng (tab_content tabInfo) q st1 = (Inl e, st')"
  shows "processTab eng tabInfo q st = (tabResult tabInfo ''Error processing this tab'' False, st')"
  using assms
  by (auto simp: processTab_def directAnswer_def usesSummary_def tabResult_def Let_def
      split: option.splits list.splits bool.splits)

lemma silentChat_scripted_ok:
  "silentChat scripted msgs \<lparr>world = Response True (Some t) e # rs, calls = cs\<rparr> =
     (Inr t, \<lparr>world = rs, calls = cs @ [msgs]\<rparr>)"
  by (simp add: silentChat_def)

lemma silentChat_scripted_lastError:
  "silentChat scripted msgs \<lparr>world = LastError m # rs, calls = cs\<rparr> =
     (Inl m, \<lparr>world = rs, calls = cs @ [msgs]\<rparr>)"
  by (simp add: silentChat_def)

lemma show_nat_digits:
  "show_nat (Suc 0) = ''1''" "show_nat 2 = ''2''" "show_nat 3 = ''3''"
  "show_nat (Suc (Suc 0)) = ''2''"
  by (simp_all add: show_nat.simps)

lemma usesSummary_example:
  "usesSummary (exampleTab n) = None"
  "usesSummary (withSummary (exampleTab n)) = Some (''Summary of Tab '' @ n)"
  by (simp_all add: usesSummary_def exampleTab_def withSummary_def)

lemma parse_example_replies:
  "parseSummaryResponse ''No relevant information'' =
     \<lparr>sufficient = True, answer = ''No relevant information''\<rparr>"
  "parseSummaryResponse ''N/A'' = \<lparr>sufficient = True, answer = ''N/A''\<rparr>"
  "parseSummaryResponse ''Paris is the capital'' =
     \<lparr>sufficient = True, answer = ''Paris is the capital''\<rparr>"
  "parseSummaryResponse ''SUFFICIENT: no\<newline>ANSWER: N/A'' = \<lparr>sufficient = False, answer = ''N/A''\<rparr>"
  by code_simp+

lemma relevant_example_replies:
  "relevantSummary ''No relevant information'' = False"
  "relevantSummary ''N/A'' = False"
  "relevantSummary ''Paris is the capital'' = True"
  "relevantDirect ''No relevant information'' = False"
  "relevantDirect ''N/A'' = True"
  "relevantDirect ''Paris is the capital'' = True"
  "relevantDirect [] = True"
  by code_simp+

lemma processTab_scripted_summary:
  assumes "sufficient (parseSummaryResponse t)"
  shows "processTab scripted (withSummary (exampleTab n)) q
           \<lparr>world = Response True (Some t) e # rs, calls = cs\<rparr> =
         (tabResult (withSummary (exampleTab n)) (answer (parseSummaryResponse t))
            (relevantSummary (answer (parseSummaryResponse t))),
          \<lparr>world = rs, calls = cs @ [summaryMessages (''Summary of Tab '' @ n) q]\<rparr>)"
  by (rule processTab_summary_sufficient [OF usesSummary_example(2) silentChat_scripted_ok assms])

lemma processTab_scripted_direct:
  "processTab scripted (exampleTab n) q \<lparr>world = Response True (Some t) e # rs, calls = cs\<rparr> =
     (tabResult (exampleTab n) t (relevantDirect t),
      \<lparr>world = rs, calls = cs @ [contentMessages (tab_content (exampleTab n)) q]\<rparr>)"
  by (rule processTab_direct_ok [OF usesSummary_example(1)])
     (simp add: answerFromContent_def silentChat_scripted_ok)

lemma phase1_example_with_summaries:
  "fst (phase1 scripted (map withSummary exampleTabs) q exampleReplies) =
     [tabResult (withSummary (exampleTab ''a'')) ''No relevant information'' False,
      tabResult (withSummary (exampleTab ''b'')) ''N/A'' False,
      tabResult (withSummary (exampleTab ''c'')) ''Paris is the capital'' True]"
  by (simp add: exampleTabs_def exampleReplies_def processTab_scripted_summary
      parse_example_replies relevant_example_replies)

lemma phase1_example_without_summaries:
  "fst (phase1 scripted exampleTabs q exampleReplies) =
     [tabResult (exampleTab ''a'') ''No relevant information'' False,
      tabResult (exampleTab ''b'') ''N/A'' True,
      tabResult (exampleTab ''c'') ''Paris is the capital'' True]"
  by (simp add: exampleTabs_def exampleReplies_def processTab_scripted_direct
      relevant_example_replies)

lemma aggregate_one:
  "aggregate 3 [tabResult (withSummary (exampleTab ''a'')) ''No relevant information'' False,
      tabResult (withSummary (exampleTab ''b'')) ''N/A'' False,
      tabResult (withSummary (exampleTab ''c'')) ''Paris is the capital'' True] =
   ''You are a helpful assistant. The user has 3 browser tabs open. Below is the relevant information extracted from 1 relevant tabs:\<newline>\<newline>=== Tab 1: Tab c ===\<newline>URL: https://example.org/c\<newline>Relevant Information: Paris is the capital\<newline>\<newline>\<newline>Please provide a comprehensive answer.''"
  by (simp add: aggregate_def tabResult_def combinedContext_def enumerate_simps show_nat_digits
      exampleTab_def withSummary_def)

lemma aggregate_two:
  "aggregate 3 [tabResult (exampleTab ''a'') ''No relevant information'' False,
      tabResult (exampleTab ''b'') ''N/A'' True,
      tabResult (exampleTab ''c'') ''Paris is the capital'' True] =
   ''You are a helpful assistant. The user has 3 browser tabs open. Below is the relevant information extracted from 2 relevant tabs:\<newline>\<newline>=== Tab 1: Tab b ===\<newline>URL: https://example.org/b\<newline>Relevant Information: N/A\<newline>\<newline>=== Tab 2: Tab c ===\<newline>URL: https://example.org/c\<newline>Relevant Information: Paris is the capital\<newline>\<newline>\<newline>Please provide a comprehensive answer.''"
  by (simp add: aggregate_def tabResult_def combinedContext_def enumerate_simps show_nat_digits
      exampleTab_def)

lemma systemContent_multi:
  "1 < length tabs \<Longrightarrow>
   systemContent (fst (processMultiTabQuery eng tabs q st)) =
     aggregate (length tabs) (fst (phase1 eng tabs q st))"
  by (simp add: processMultiTabQuery_def systemContent_def split: prod.splits)

lemma example_with_summaries:
  "systemContent (fst (processMultiTabQuery scripted (map withSummary exampleTabs)
      ''What is the capital?'' exampleReplies)) =
   ''You are a helpful assistant. The user has 3 browser tabs open. Below is the relevant information extracted from 1 relevant tabs:\<newline>\<newline>=== Tab 1: Tab c ===\<newline>URL: https://example.org/c\<newline>Relevant Information: Paris is the capital\<newline>\<newline>\<newline>Please provide a comprehensive answer.''"
proof -
  have "length (map withSummary exampleTabs) = 3" by (simp add: exampleTabs_def)
  then show ?thesis
    by (simp add: systemContent_multi phase1_example_with_summaries aggregate_one)
qed


lemma fast_path_empty:
  "processMultiTabQuery eng [] q st =
   (\<lparr>success = True,
     finalMessages = Some
       [\<lparr>role = ''system'',
         content = ''You are a helpful assistant. Here is the content of the browser tab:\<newline>\<newline>\<newline>\<newline>Please answer questions about this webpage.''\<rparr>,
        \<lparr>role = ''user'', content = q\<rparr>],
     error = None\<rparr>, st)"
  by (simp add: processMultiTabQuery_def pageContext_def)

lemma fast_path_single:
  "processMultiTabQuery eng [tabInfo] q st =
   (\<lparr>success = True,
     finalMessages = Some
       [\<lparr>role = ''system'',
         content = ''You are a helpful assistant. Here is the content of the browser tab:\<newline>\<newline>=== Tab 1: '' @
            tab_title tabInfo @ '' ===\<newline>URL: '' @ tab_url tabInfo @ ''\<newline>\<newline>'' @
            tab_content tabInfo @ ''\<newline>\<newline>\<newline>\<newline>Please answer questions about this webpage.''\<rparr>,
        \<lparr>role = ''user'', content = q\<rparr>],
     error = None\<rparr>, st)"
  by (simp add: processMultiTabQuery_def pageContext_def enumerate_simps show_nat_digits)

text \<open>
  Claim C8, as the code has it.  For a tab list of length 0 or 1 the query succeeds and
  leaves the engine state and the log of engine requests as they were: no engine call is
  made.  The final messages are one system message and the user question.  For one tab
  the system message embeds the title, the URL and the raw content of the tab, whole;
  for no tab it is the same frame around an empty page context.
\<close>

theorem processMultiTabQuery_fast_path:
  "length allTabContents \<le> 1 \<longrightarrow>
   processMultiTabQuery eng allTabContents userMessage st =
     (\<lparr>success = True,
       finalMessages = Some
         [\<lparr>role = ''system'',
           content =
             (case allTabContents of
                [] \<Rightarrow> ''You are a helpful assistant. Here is the content of the browser tab:\<newline>\<newline>\<newline>\<newline>Please answer questions about this webpage.''
              | tabInfo # rest \<Rightarrow>
                  ''You are a helpful assistant. Here is the content of the browser tab:\<newline>\<newline>=== Tab 1: '' @
                  tab_title tabInfo @ '' ===\<newline>URL: '' @ tab_url tabInfo @ ''\<newline>\<newline>'' @
                  tab_content tabInfo @
                  ''\<newline>\<newline>\<newline>\<newline>Please answer questions about this webpage.'')\<rparr>,
          \<lparr>role = ''user'', content = userMessage\<rparr>],
       error = None\<rparr>, st)"
proof
  assume len: "length allTabContents \<le> 1"
  show "processMultiTabQuery eng allTabContents userMessage st =
     (\<lparr>success = True,
       finalMessages = Some
         [\<lparr>role = ''system'',
           content =
             (case allTabContents of
                [] \<Rightarrow> ''You are a helpful assistant. Here is the content of the browser tab:\<newline>\<newline>\<newline>\<newline>Please answer questions about this webpage.''
              | tabInfo # rest \<Rightarrow>
                  ''You are a helpful assistant. Here is the content of the browser tab:\<newline>\<newline>=== Tab 1: '' @
                  tab_title tabInfo @ '' ===\<newline>URL: '' @ tab_url tabInfo @ ''\<newline>\<newline>'' @
                  tab_content tabInfo @
                  ''\<newline>\<newline>\<newline>\<newline>Please answer questions about this webpage.'')\<rparr>,
          \<lparr>role = ''user'', content = userMessage\<rparr>],
       error = None\<rparr>, st)"
  proof (cases allTabContents)
    case Nil
    then show ?thesis by (simp only: fast_path_empty list.case)
  next
    case (Cons tabInfo rest)
    with len have "rest = []" by simp
    with Cons show ?thesis by (simp only: fast_path_single list.case)
  qed
qed

theorem processMultiTabQuery_fast_path_witness:
  "length ([] :: TabContentInfo list) \<le> 1 \<and>
   processMultiTabQuery scripted [] ''hi'' \<lparr>world = [], calls = []\<rparr> =
     (\<lparr>success = True,
       finalMessages = Some
         [\<lparr>role = ''system'',
           content = ''You are a helpful assistant. Here is the content of the browser tab:\<newline>\<newline>\<newline>\<newline>Please answer questions about this webpage.''\<rparr>,
          \<lparr>role = ''user'', content = ''hi''\<rparr>],
       error = None\<rparr>, \<lparr>world = [], calls = []\<rparr>) \<and>
   length [exampleTab ''a''] \<le> 1 \<and>
   processMultiTabQuery scripted [exampleTab ''a''] ''hi'' \<lparr>world = [], calls = []\<rparr> =
     (\<lparr>success = True,
       finalMessages = Some
         [\<lparr>role = ''system'',
           content = ''You are a helpful assistant. Here is the content of the browser tab:\<newline>\<newline>=== Tab 1: Tab a ===\<newline>URL: https://example.org/a\<newline>\<newline>Text of a\<newline>\<newline>\<newline>\<newline>Please answer questions about this webpage.''\<rparr>,
          \<lparr>role = ''user'', content = ''hi''\<rparr>],
       error = None\<rparr>, \<lparr>world = [], calls = []\<rparr>)"
  using processMultiTabQuery_fast_path [of "[]" scripted "''hi''" "\<lparr>world = [], calls = []\<rparr>"]
    processMultiTabQuery_fast_path [of "[exampleTab ''a'']" scripted "''hi''" "\<lparr>world = [], calls = []\<rparr>"]
  by (simp add: exampleTab_def)

text \<open>
  For the empty tab list the system message is not a notice that no tab is available: it
  announces the content of the browser tab and embeds nothing.
\<close>

theorem processMultiTabQuery_no_tab_counterexample:
  "\<not> saysNoTab (systemContent (fst (processMultiTabQuery scripted [] ''hi''
        \<lparr>world = [], calls = []\<rparr>)))"
proof -
  have "\<not> saysNoTab ''You are a helpful assistant. Here is the content of the browser tab:\<newline>\<newline>\<newline>\<newline>Please answer questions about this webpage.''"
    by code_simp
  then show ?thesis by (simp add: fast_path_empty systemContent_def)
qed

text \<open>
  Claim C4, as the code has it.  Phase 1 marks a tab by the branch that produced its
  answer.  An answer taken from a cached summary that the parser found sufficient is
  relevant exactly when it does not contain \<open>no relevant information\<close> in any case, is
  not \<open>n/a\<close> in any case and is not blank.  An answer taken from the raw content, directly
  or after an insufficient summary, is relevant exactly when it does not contain
  \<open>no relevant information\<close> in any case.  A rejected engine call gives the answer
  \<open>Error processing this tab\<close>, marked irrelevant.  Three tabs with cached summaries whose
  replies are \<open>No relevant information\<close>, \<open>N/A\<close> and \<open>Paris is the capital\<close> give a system
  message that names one relevant tab and that text.
\<close>

theorem phase1_relevance:
  "(usesSummary tabInfo = None \<and>
    answerFromContent eng (tab_content tabInfo) q st = (Inr a, st') \<longrightarrow>
      processTab eng tabInfo q st =
        (tabResult tabInfo a (\<not> includesStr (toLowerCase a) ''no relevant information''), st')) \<and>
   (usesSummary tabInfo = None \<and>
    answerFromContent eng (tab_content tabInfo) q st = (Inl e, st') \<longrightarrow>
      processTab eng tabInfo q st =
        (tabResult tabInfo ''Error processing this tab'' False, st')) \<and>
   (usesSummary tabInfo = Some s \<and>
    silentChat eng (summaryMessages s q) st = (Inl e, st1) \<longrightarrow>
      processTab eng tabInfo q st =
        (tabResult tabInfo ''Error processing this tab'' False, st1)) \<and>
   (usesSummary tabInfo = Some s \<and>
    silentChat eng (summaryMessages s q) st = (Inr resp, st1) \<and>
    sufficient (parseSummaryResponse resp) \<longrightarrow>
      processTab eng tabInfo q st =
        (tabResult tabInfo (answer (parseSummaryResponse resp))
           (\<not> includesStr (toLowerCase (answer (parseSummaryResponse resp)))
                 ''no relevant information'' \<and>
            toLowerCase (answer (parseSummaryResponse resp)) \<noteq> ''n/a'' \<and>
            trim (answer (parseSummaryResponse resp)) \<noteq> []), st1)) \<and>
   (usesSummary tabInfo = Some s \<and>
    silentChat eng (summaryMessages s q) st = (Inr resp, st1) \<and>
    \<not> sufficient (parseSummaryResponse resp) \<and>
    answerFromContent eng (tab_content tabInfo) q st1 = (Inr a, st') \<longrightarrow>
      processTab eng tabInfo q st =
        (tabResult tabInfo a (\<not> includesStr (toLowerCase a) ''no relevant information''), st')) \<and>
   (usesSummary tabInfo = Some s \<and>
    silentChat eng (summaryMessages s q) st = (Inr resp, st1) \<and>
    \<not> sufficient (parseSummaryResponse resp) \<and>
    answerFromContent eng (tab_content tabInfo) q st1 = (Inl e, st') \<longrightarrow>
      processTab eng tabInfo q st =
        (tabResult tabInfo ''Error processing this tab'' False, st')) \<and>
   systemContent (fst (processMultiTabQuery scripted (map withSummary exampleTabs)
      ''What is the capital?'' exampleReplies)) =
     ''You are a helpful assistant. The user has 3 browser tabs open. Below is the relevant information extracted from 1 relevant tabs:\<newline>\<newline>=== Tab 1: Tab c ===\<newline>URL: https://example.org/c\<newline>Relevant Information: Paris is the capital\<newline>\<newline>\<newline>Please provide a comprehensive answer.''"
  using processTab_direct_ok [of tabInfo eng q st a st']
    processTab_direct_fail [of tabInfo eng q st e st']
    processTab_summary_fail [of tabInfo s eng q st e st1]
    processTab_summary_sufficient [of tabInfo s eng q st resp st1]
    processTab_summary_insufficient_ok [of tabInfo s eng q st resp st1 a st']
    processTab_summary_insufficient_fail [of tabInfo s eng q st resp st1 e st']
    example_with_summaries
  unfolding relevantDirect_def relevantSummary_def
  by blast

theorem phase1_relevance_witness:
  "(usesSummary (exampleTab ''b'') = None \<and>
    answerFromContent scripted (tab_content (exampleTab ''b'')) ''q''
        \<lparr>world = [Response True (Some ''N/A'') None], calls = []\<rparr> =
      (Inr ''N/A'', \<lparr>world = [], calls = [contentMessages (tab_content (exampleTab ''b'')) ''q'']\<rparr>) \<and>
    processTab scripted (exampleTab ''b'') ''q''
        \<lparr>world = [Response True (Some ''N/A'') None], calls = []\<rparr> =
      (tabResult (exampleTab ''b'') ''N/A'' True,
       \<lparr>world = [], calls = [contentMessages (tab_content (exampleTab ''b'')) ''q'']\<rparr>)) \<and>
   (answerFromContent scripted (tab_content (exampleTab ''b'')) ''q''
        \<lparr>world = [LastError ''port closed''], calls = []\<rparr> =
      (Inl ''port closed'',
       \<lparr>world = [], calls = [contentMessages (tab_content (exampleTab ''b'')) ''q'']\<rparr>) \<and>
    processTab scripted (exampleTab ''b'') ''q''
        \<lparr>world = [LastError ''port closed''], calls = []\<rparr> =
      (tabResult (exampleTab ''b'') ''Error processing this tab'' False,
       \<lparr>world = [], calls = [contentMessages (tab_content (exampleTab ''b'')) ''q'']\<rparr>)) \<and>
   (usesSummary (withSummary (exampleTab ''a'')) = Some ''Summary of Tab a'' \<and>
    silentChat scripted (summaryMessages ''Summary of Tab a'' ''q'')
        \<lparr>world = [LastError ''port closed''], calls = []\<rparr> =
      (Inl ''port closed'', \<lparr>world = [], calls = [summaryMessages ''Summary of Tab a'' ''q'']\<rparr>) \<and>
    processTab scripted (withSummary (exampleTab ''a'')) ''q''
        \<lparr>world = [LastError ''port closed''], calls = []\<rparr> =
      (tabResult (withSummary (exampleTab ''a'')) ''Error processing this tab'' False,
       \<lparr>world = [], calls = [summaryMessages ''Summary of Tab a'' ''q'']\<rparr>)) \<and>
   (silentChat scripted (summaryMessages ''Summary of Tab a'' ''q'')
        \<lparr>world = [Response True (Some ''N/A'') None], calls = []\<rparr> =
      (Inr ''N/A'', \<lparr>world = [], calls = [summaryMessages ''Summary of Tab a'' ''q'']\<rparr>) \<and>
    sufficient (parseSummaryResponse ''N/A'') \<and>
    processTab scripted (withSummary (exampleTab ''a'')) ''q''
        \<lparr>world = [Response True (Some ''N/A'') None], calls = []\<rparr> =
      (tabResult (withSummary (exampleTab ''a'')) ''N/A'' False,
       \<lparr>world = [], calls = [summaryMessages ''Summary of Tab a'' ''q'']\<rparr>)) \<and>
   (silentChat scripted (summaryMessages ''Summary of Tab a'' ''q'')
        \<lparr>world = [Response True (Some ''SUFFICIENT: no\<newline>ANSWER: N/A'') None,
                  Response True (Some []) None], calls = []\<rparr> =
      (Inr ''SUFFICIENT: no\<newline>ANSWER: N/A'',
       \<lparr>world = [Response True (Some []) None],
        calls = [summaryMessages ''Summary of Tab a'' ''q'']\<rparr>) \<and>
    \<not> sufficient (parseSummaryResponse ''SUFFICIENT: no\<newline>ANSWER: N/A'') \<and>
    answerFromContent scripted (tab_content (withSummary (exampleTab ''a''))) ''q''
        \<lparr>world = [Response True (Some []) None],
         calls = [summaryMessages ''Summary of Tab a'' ''q'']\<rparr> =
      (Inr [], \<lparr>world = [], calls = [summaryMessages ''Summary of Tab a'' ''q'',
           contentMessages (tab_content (withSummary (exampleTab ''a''))) ''q'']\<rparr>) \<and>
    processTab scripted (withSummary (exampleTab ''a'')) ''q''
        \<lparr>world = [Response True (Some ''SUFFICIENT: no\<newline>ANSWER: N/A'') None,
                  Response True (Some []) None], calls = []\<rparr> =
      (tabResult (withSummary (exampleTab ''a'')) [] True,
       \<lparr>world = [], calls = [summaryMessages ''Summary of Tab a'' ''q'',
           contentMessages (tab_content (withSummary (exampleTab ''a''))) ''q'']\<rparr>)) \<and>
   (answerFromContent scripted (tab_content (withSummary (exampleTab ''a''))) ''q''
        \<lparr>world = [LastError ''port closed''],
         calls = [summaryMessages ''Summary of Tab a'' ''q'']\<rparr> =
      (Inl ''port closed'', \<lparr>world = [], calls = [summaryMessages ''Summary of Tab a'' ''q'',
           contentMessages (tab_content (withSummary (exampleTab ''a''))) ''q'']\<rparr>) \<and>
    processTab scripted (withSummary (exampleTab ''a'')) ''q''
        \<lparr>world = [Response True (Some ''SUFFICIENT: no\<newline>ANSWER: N/A'') None,
                  LastError ''port closed''], calls = []\<rparr> =
      (tabResult (withSummary (exampleTab ''a'')) ''Error processing this tab'' False,
       \<lparr>world = [], calls = [summaryMessages ''Summary of Tab a'' ''q'',
           contentMessages (tab_content (withSummary (exampleTab ''a''))) ''q'']\<rparr>))"
proof -
  let ?b = "exampleTab ''b''" and ?a = "withSummary (exampleTab ''a'')"
  let ?sm = "summaryMessages ''Summary of Tab a'' ''q''"
  let ?insuff = "''SUFFICIENT: no\<newline>ANSWER: N/A''"
  note ev = usesSummary_example answerFromContent_def silentChat_scripted_ok
    silentChat_scripted_lastError
  have ub: "usesSummary ?b = None" and ua: "usesSummary ?a = Some ''Summary of Tab a''"
    by (simp_all add: ev)
  have d1: "answerFromContent scripted (tab_content ?b) ''q''
        \<lparr>world = [Response True (Some ''N/A'') None], calls = []\<rparr> =
      (Inr ''N/A'', \<lparr>world = [], calls = [contentMessages (tab_content ?b) ''q'']\<rparr>)"
    by (simp add: ev)
  have d2: "answerFromContent scripted (tab_content ?b) ''q''
        \<lparr>world = [LastError ''port closed''], calls = []\<rparr> =
      (Inl ''port closed'', \<lparr>world = [], calls = [contentMessages (tab_content ?b) ''q'']\<rparr>)"
    by (simp add: ev)
  have s3: "silentChat scripted ?sm \<lparr>world = [LastError ''port closed''], calls = []\<rparr> =
      (Inl ''port closed'', \<lparr>world = [], calls = [?sm]\<rparr>)"
    by (simp add: ev)
  have s4: "silentChat scripted ?sm \<lparr>world = [Response True (Some ''N/A'') None], calls = []\<rparr> =
      (Inr ''N/A'', \<lparr>world = [], calls = [?sm]\<rparr>)"
    by (simp add: ev)
  have p4: "sufficient (parseSummaryResponse ''N/A'')"
    and a4: "answer (parseSummaryResponse ''N/A'') = ''N/A''"
    by (simp_all add: parse_example_replies)
  have s5: "silentChat scripted ?sm
        \<lparr>world = [Response True (Some ?insuff) None, Response True (Some []) None], calls = []\<rparr> =
      (Inr ?insuff, \<lparr>world = [Response True (Some []) None], calls = [?sm]\<rparr>)"
    by (simp add: ev)
  have s6: "silentChat scripted ?sm
        \<lparr>world = [Response True (Some ?insuff) None, LastError ''port closed''], calls = []\<rparr> =
      (Inr ?insuff, \<lparr>world = [LastError ''port closed''], calls = [?sm]\<rparr>)"
    by (simp add: ev)
  have p5: "\<not> sufficient (parseSummaryResponse ?insuff)"
    by (simp add: parse_example_replies)
  have d5: "answerFromContent scripted (tab_content ?a) ''q''
        \<lparr>world = [Response True (Some []) None], calls = [?sm]\<rparr> =
      (Inr [], \<lparr>world = [], calls = [?sm, contentMessages (tab_content ?a) ''q'']\<rparr>)"
    by (simp add: ev)
  have d6: "answerFromContent scripted (tab_content ?a) ''q''
        \<lparr>world = [LastError ''port closed''], calls = [?sm]\<rparr> =
      (Inl ''port closed'', \<lparr>world = [], calls = [?sm, contentMessages (tab_content ?a) ''q'']\<rparr>)"
    by (simp add: ev)
  have r1: "\<not> includesStr (toLowerCase ''N/A'') ''no relevant information''"
    and r4: "toLowerCase ''N/A'' = ''n/a''"
    and r5: "\<not> includesStr (toLowerCase []) ''no relevant information''"
    by code_simp+
  have w1: "processTab scripted ?b ''q'' \<lparr>world = [Response True (Some ''N/A'') None], calls = []\<rparr> =
      (tabResult ?b ''N/A'' True, \<lparr>world = [], calls = [contentMessages (tab_content ?b) ''q'']\<rparr>)"
    using phase1_relevance [where tabInfo = ?b and eng = scripted and q = "''q''"
        and st = "\<lparr>world = [Response True (Some ''N/A'') None], calls = []\<rparr>" and a = "''N/A''"
        and st' = "\<lparr>world = [], calls = [contentMessages (tab_content ?b) ''q'']\<rparr>",
        THEN conjunct1] ub d1 r1
    by simp
  have w2: "processTab scripted ?b ''q'' \<lparr>world = [LastError ''port closed''], calls = []\<rparr> =
      (tabResult ?b ''Error processing this tab'' False,
       \<lparr>world = [], calls = [contentMessages (tab_content ?b) ''q'']\<rparr>)"
    using phase1_relevance [where tabInfo = ?b and eng = scripted and q = "''q''"
        and st = "\<lparr>world = [LastError ''port closed''], calls = []\<rparr>" and e = "''port closed''"
        and st' = "\<lparr>world = [], calls = [contentMessages (tab_content ?b) ''q'']\<rparr>",
        THEN conjunct2, THEN conjunct1] ub d2
    by simp
  have w3: "processTab scripted ?a ''q'' \<lparr>world = [LastError ''port closed''], calls = []\<rparr> =
      (tabResult ?a ''Error processing this tab'' False, \<lparr>world = [], calls = [?sm]\<rparr>)"
    using phase1_relevance [where tabInfo = ?a and eng = scripted and q = "''q''"
        and st = "\<lparr>world = [LastError ''port closed''], calls = []\<rparr>" and e = "''port closed''"
        and s = "''Summary of Tab a''" and ?st1.0 = "\<lparr>world = [], calls = [?sm]\<rparr>",
        THEN conjunct2, THEN conjunct2, THEN conjunct1] ua s3
    by simp
  have w4: "processTab scripted ?a ''q'' \<lparr>world = [Response True (Some ''N/A'') None], calls = []\<rparr> =
      (tabResult ?a ''N/A'' False, \<lparr>world = [], calls = [?sm]\<rparr>)"
    using phase1_relevance [where tabInfo = ?a and eng = scripted and q = "''q''"
        and st = "\<lparr>world = [Response True (Some ''N/A'') None], calls = []\<rparr>" and resp = "''N/A''"
        and s = "''Summary of Tab a''" and ?st1.0 = "\<lparr>world = [], calls = [?sm]\<rparr>",
        THEN conjunct2, THEN conjunct2, THEN conjunct2, THEN conjunct1] ua s4 p4 a4 r4
    by simp
  have w5: "processTab scripted ?a ''q''
        \<lparr>world = [Response True (Some ?insuff) None, Response True (Some []) None], calls = []\<rparr> =
      (tabResult ?a [] True, \<lparr>world = [], calls = [?sm, contentMessages (tab_content ?a) ''q'']\<rparr>)"
    using phase1_relevance [where tabInfo = ?a and eng = scripted and q = "''q''"
        and st = "\<lparr>world = [Response True (Some ?insuff) None, Response True (Some []) None], calls = []\<rparr>"
        and resp = ?insuff and s = "''Summary of Tab a''"
        and ?st1.0 = "\<lparr>world = [Response True (Some []) None], calls = [?sm]\<rparr>" and a = "[]"
        and st' = "\<lparr>world = [], calls = [?sm, contentMessages (tab_content ?a) ''q'']\<rparr>",
        THEN conjunct2, THEN conjunct2, THEN conjunct2, THEN conjunct2, THEN conjunct1]
      ua s5 p5 d5 r5
    by simp
  have w6: "processTab scripted ?a ''q''
        \<lparr>world = [Response True (Some ?insuff) None, LastError ''port closed''], calls = []\<rparr> =
      (tabResult ?a ''Error processing this tab'' False,
       \<lparr>world = [], calls = [?sm, contentMessages (tab_content ?a) ''q'']\<rparr>)"
    using phase1_relevance [where tabInfo = ?a and eng = scripted and q = "''q''"
        and st = "\<lparr>world = [Response True (Some ?insuff) None, LastError ''port closed''], calls = []\<rparr>"
        and resp = ?insuff and s = "''Summary of Tab a''"
        and ?st1.0 = "\<lparr>world = [LastError ''port closed''], calls = [?sm]\<rparr>"
        and e = "''port closed''"
        and st' = "\<lparr>world = [], calls = [?sm, contentMessages (tab_content ?a) ''q'']\<rparr>",
        THEN conjunct2, THEN conjunct2, THEN conjunct2, THEN conjunct2, THEN conjunct2,
        THEN conjunct1]
      ua s6 p5 d6
    by simp
  from ub ua d1 d2 s3 s4 p4 s5 p5 d5 d6 w1 w2 w3 w4 w5 w6 show ?thesis
    by (intro conjI) assumption+
qed

text \<open>
  On the raw-content branch the answer \<open>N/A\<close> is marked relevant, so three tabs without
  cached summaries and the same three replies leave two relevant tabs.
\<close>

theorem phase1_relevance_counterexample:
  "\<not> (toLowerCase ''N/A'' = ''n/a'' \<longrightarrow>
        \<not> isRelevant (fst (processTab scripted (exampleTab ''b'') ''What is the capital?''
             \<lparr>world = [Response True (Some ''N/A'') None], calls = []\<rparr>))) \<and>
   length (filter isRelevant
     (fst (phase1 scripted exampleTabs ''What is the capital?'' exampleReplies))) \<noteq> 1"
proof -
  have "toLowerCase ''N/A'' = ''n/a''" by code_simp
  moreover have "isRelevant (fst (processTab scripted (exampleTab ''b'') ''What is the capital?''
             \<lparr>world = [Response True (Some ''N/A'') None], calls = []\<rparr>))"
    by (simp add: processTab_scripted_direct relevant_example_replies tabResult_def)
  moreover have "length (filter isRelevant
     (fst (phase1 scripted exampleTabs ''What is the capital?'' exampleReplies))) = 2"
    by (simp add: phase1_example_without_summaries tabResult_def)
  ultimately show ?thesis by simp
qed

section \<open>Properties of the summarization queue\<close>

lemma prefix_keys_differ:
  "SUMMARY_CACHE_PREFIX @ a \<noteq> PENDING_CACHE_PREFIX @ b"
  "PENDING_CACHE_PREFIX @ b \<noteq> SUMMARY_CACHE_PREFIX @ a"
  by (simp_all add: SUMMARY_CACHE_PREFIX_def PENDING_CACHE_PREFIX_def)



lemma getPendingPage_saveCachedSummary:
  "getPendingPage (saveCachedSummary d s) v = getPendingPage s v"
  by (simp add: getPendingPage_def saveCachedSummary_def prefix_keys_differ)




lemma get_update [simp]:
  "getPendingPage (s\<lparr>awaiting := a\<rparr>) = getPendingPage s"
  "getPendingPage (s\<lparr>summarizationQueue := q\<rparr>) = getPendingPage s"
  "getPendingPage (s\<lparr>isSummarizing := b\<rparr>) = getPendingPage s"
  "getPendingPage (s\<lparr>log := l\<rparr>) = getPendingPage s"
  "getPendingPage (s\<lparr>offscreenEngineReady := b\<rparr>) = getPendingPage s"
  "getPendingPage (s\<lparr>isEngineInitializing := b\<rparr>) = getPendingPage s"
  "getPendingPage (s\<lparr>offscreenDocumentCreated := b\<rparr>) = getPendingPage s"
  "getCachedSummary (s\<lparr>awaiting := a\<rparr>) = getCachedSummary s"
  "getCachedSummary (s\<lparr>summarizationQueue := q\<rparr>) = getCachedSummary s"
  "getCachedSummary (s\<lparr>isSummarizing := b\<rparr>) = getCachedSummary s"
  "getCachedSummary (s\<lparr>log := l\<rparr>) = getCachedSummary s"
  "getCachedSummary (s\<lparr>offscreenEngineReady := b\<rparr>) = getCachedSummary s"
  "getCachedSummary (s\<lparr>isEngineInitializing := b\<rparr>) = getCachedSummary s"
  "getCachedSummary (s\<lparr>offscreenDocumentCreated := b\<rparr>) = getCachedSummary s"
  by (simp_all add: getPendingPage_def getCachedSummary_def fun_eq_iff)

lemma storage_only:
  "storage s' = storage s \<Longrightarrow> getPendingPage s' v = getPendingPage s v"
  "storage s' = storage s \<Longrightarrow> getCachedSummary s' v = getCachedSummary s v"
  by (simp_all add: getPendingPage_def getCachedSummary_def)

lemma fields_removePendingPage [simp]:
  "summarizationQueue (removePendingPage u s) = summarizationQueue s"
  "isSummarizing (removePendingPage u s) = isSummarizing s"
  "awaiting (removePendingPage u s) = awaiting s"
  "log (removePendingPage u s) = log s"
  "offscreenEngineReady (removePendingPage u s) = offscreenEngineReady s"
  by (simp_all add: removePendingPage_def)

lemma fields_saveCachedSummary [simp]:
  "summarizationQueue (saveCachedSummary d s) = summarizationQueue s"
  "isSummarizing (saveCachedSummary d s) = isSummarizing s"
  "awaiting (saveCachedSummary d s) = awaiting s"
  "log (saveCachedSummary d s) = log s"
  "offscreenEngineReady (saveCachedSummary d s) = offscreenEngineReady s"
  by (simp_all add: saveCachedSummary_def)

lemma fields_savePendingPage [simp]:
  "summarizationQueue (savePendingPage d s) = summarizationQueue s"
  "isSummarizing (savePendingPage d s) = isSummarizing s"
  "awaiting (savePendingPage d s) = awaiting s"
  "log (savePendingPage d s) = log s"
  "offscreenEngineReady (savePendingPage d s) = offscreenEngineReady s"
  by (simp_all add: savePendingPage_def)




lemma wellKeyed_saveCachedSummary: "wellKeyed s \<Longrightarrow> wellKeyed (saveCachedSummary d s)"
  by (simp add: wellKeyed_def getPendingPage_saveCachedSummary)








lemma truthy_simps [simp]:
  "truthy None = False" "truthy (Some []) = False" "truthy (Some (c # cs)) = True"
  by (simp_all add: truthy_def)






text \<open>
  Claim C9.  With the engine not ready the handler of the multi-tab query answers at once
  with the error \<open>Engine not ready\<close>: the engine state and the log of engine requests are
  unchanged, so no engine call and no Phase 1 processing took place, and nothing is queued.
\<close>

theorem engine_not_ready:
  "\<not> offscreenEngineReady s \<longrightarrow>
     onProcessMultiTabQuery eng tabContents userMessage s st =
       (\<lparr>success = False, finalMessages = None, error = Some ''Engine not ready''\<rparr>, st)"
  by (simp add: onProcessMultiTabQuery_def)

lemma ensure_fields [simp]:
  "summarizationQueue (snd (ensureOffscreenDocument env s)) = summarizationQueue s"
  "isSummarizing (snd (ensureOffscreenDocument env s)) = isSummarizing s"
  "offscreenEngineReady (snd (ensureOffscreenDocument env s)) = offscreenEngineReady s"
  "awaiting (snd (ensureOffscreenDocument env s)) = awaiting s"
  "log (snd (ensureOffscreenDocument env s)) = log s"
  "storage (snd (ensureOffscreenDocument env s)) = storage s"
  by (simp_all add: ensureOffscreenDocument_def split: provision.splits)

lemma ensure_get [simp]:
  "getPendingPage (snd (ensureOffscreenDocument env s)) = getPendingPage s"
  "getCachedSummary (snd (ensureOffscreenDocument env s)) = getCachedSummary s"
  by (simp_all add: getPendingPage_def getCachedSummary_def fun_eq_iff)




lemma send_fields [simp]:
  "summarizationQueue (send m s) = summarizationQueue s"
  "isSummarizing (send m s) = isSummarizing s"
  "offscreenEngineReady (send m s) = offscreenEngineReady s"
  "awaiting (send m s) = awaiting s"
  "log (send m s) = log s @ [Sent m]"
  "getPendingPage (send m s) = getPendingPage s"
  "getCachedSummary (send m s) = getCachedSummary s"
  by (simp_all add: send_def)




















lemma initial_facts:
  "\<not> offscreenEngineReady initialState" "\<not> isSummarizing initialState"
  "summarizationQueue initialState = []" "getCachedSummary initialState u = None"
  "log initialState = []"
  "offscreenEngineReady readyState" "\<not> isSummarizing readyState"
  "summarizationQueue readyState = []" "getCachedSummary readyState u = None"
  "log readyState = []"
  by (simp_all add: initialState_def readyState_def getCachedSummary_def)





theorem engine_not_ready_witness:
  "\<not> offscreenEngineReady initialState \<and>
   onProcessMultiTabQuery scripted exampleTabs ''What is the capital?'' initialState exampleReplies =
     (\<lparr>success = False, finalMessages = None, error = Some ''Engine not ready''\<rparr>, exampleReplies)"
  using engine_not_ready [of initialState scripted exampleTabs "''What is the capital?''" exampleReplies]
    initial_facts(1)
  by simp




section \<open>Properties of the offscreen document\<close>

lemma unregister_gone: "map_of (activeRequests (unregister rid s)) rid = None"
  by (simp add: unregister_def delete_conv)

lemma unregister_others:
  "r \<noteq> rid \<Longrightarrow> map_of (activeRequests (unregister rid s)) r = map_of (activeRequests s) r"
  by (simp add: unregister_def delete_conv)

lemma register_there: "map_of (activeRequests (register rid s)) rid = Some False"
  by (simp add: register_def update_conv)

lemma effect_requests [simp]: "activeRequests (effect e s) = activeRequests s"
  by (simp add: effect_def)

lemma unregister_effects [simp]: "effects (unregister rid s) = effects s"
  by (simp add: unregister_def)

lemma effect_effects [simp]: "effects (effect e s) = effects s @ [e]"
  by (simp add: effect_def)

lemma stream_threw_gone: "map_of (activeRequests (stream_threw rid e s)) rid = None"
  by (simp add: stream_threw_def unregister_gone)

lemma stream_threw_effects:
  "effects (stream_threw rid e s) =
     effects s @ [SendMessage (STREAM_CHUNK (errorChunk rid e (Some True)))]"
  by (simp add: stream_threw_def)

lemma interruptGenerate_requests [simp]:
  "activeRequests (snd (interruptGenerate threw s)) = activeRequests s"
  by (simp add: interruptGenerate_def split: option.splits)

lemma interruptGenerate_engine:
  "engine s = Some m \<Longrightarrow> interruptGenerate threw s = (threw, effect InterruptGenerate s)"
  "engine s = None \<Longrightarrow> interruptGenerate threw s = (Some NULL_ENGINE_ERROR, s)"
  by (simp_all add: interruptGenerate_def)

lemma terminal_errorChunk: "terminal (errorChunk rid e (Some True))"
  by (simp add: terminal_def errorChunk_def)

text \<open>A chunk step of the stream on an aborted or stalled request settles the call.\<close>

lemma stream_chunk_settles:
  assumes "isAborted rid s \<or> now - t > CHUNK_TIMEOUT_MS"
  shows "fst (stream_chunk rid t now delta threw s) = None"
    and "map_of (activeRequests (snd (stream_chunk rid t now delta threw s))) rid = None"
    and "\<exists>es e. effects (snd (stream_chunk rid t now delta threw s)) =
           es @ [SendMessage (STREAM_CHUNK (errorChunk rid e (Some True)))]"
proof -
  obtain x s1 where i: "interruptGenerate threw s = (x, s1)" by (cases "interruptGenerate threw s")
  from assms i show "fst (stream_chunk rid t now delta threw s) = None"
    by (cases x) (auto simp: stream_chunk_def)
  from assms i show "map_of (activeRequests (snd (stream_chunk rid t now delta threw s))) rid = None"
    by (cases x) (auto simp: stream_chunk_def stream_threw_gone unregister_gone)
  from assms i show "\<exists>es e. effects (snd (stream_chunk rid t now delta threw s)) =
           es @ [SendMessage (STREAM_CHUNK (errorChunk rid e (Some True)))]"
    by (cases x) (auto simp: stream_chunk_def stream_threw_effects)
qed

lemma stream_chunk_goes_on:
  assumes "\<not> isAborted rid s" and "now - t \<le> CHUNK_TIMEOUT_MS"
  shows "fst (stream_chunk rid t now delta threw s) = Some now"
    and "activeRequests (snd (stream_chunk rid t now delta threw s)) = activeRequests s"
  using assms by (simp_all add: stream_chunk_def)

lemma stream_chunk_texts:
  "engine s \<noteq> None \<and> isAborted rid s \<Longrightarrow>
     effects (snd (stream_chunk rid t now delta None s)) =
       effects s @ [InterruptGenerate,
                    SendMessage (STREAM_CHUNK (errorChunk rid ''Request aborted'' (Some True)))]"
  "engine s \<noteq> None \<and> \<not> isAborted rid s \<and> now - t > CHUNK_TIMEOUT_MS \<Longrightarrow>
     effects (snd (stream_chunk rid t now delta None s)) =
       effects s @ [InterruptGenerate,
                    SendMessage (STREAM_CHUNK (errorChunk rid
                      ''Error: Stream stalled - no chunk received for 30000ms'' (Some True)))]"
  "engine s = None \<and> (isAborted rid s \<or> now - t > CHUNK_TIMEOUT_MS) \<Longrightarrow>
     effects (snd (stream_chunk rid t now delta threw s)) =
       effects s @ [SendMessage (STREAM_CHUNK (errorChunk rid NULL_ENGINE_ERROR (Some True)))]"
  by (auto simp: stream_chunk_def interruptGenerate_def stream_threw_effects)

lemma summarize_chunk_settles:
  assumes "isAborted rid s \<or> now - t > CHUNK_TIMEOUT_MS"
  shows "\<exists>e. fst (summarize_chunk rid t now delta threw summ s) = Inl e"
    and "map_of (activeRequests (snd (summarize_chunk rid t now delta threw summ s))) rid = None"
proof -
  obtain x s1 where i: "interruptGenerate threw s = (x, s1)" by (cases "interruptGenerate threw s")
  from assms i show "\<exists>e. fst (summarize_chunk rid t now delta threw summ s) = Inl e"
    by (cases x) (auto simp: summarize_chunk_def)
  from assms i show "map_of (activeRequests (snd (summarize_chunk rid t now delta threw summ s))) rid = None"
    by (cases x) (auto simp: summarize_chunk_def unregister_gone)
qed

lemma summarize_chunk_goes_on:
  assumes "\<not> isAborted rid s" and "now - t \<le> CHUNK_TIMEOUT_MS"
  shows "fst (summarize_chunk rid t now delta threw summ s) =
           Inr (now, if truthy delta then summ @ the delta else summ)"
    and "activeRequests (snd (summarize_chunk rid t now delta threw summ s)) = activeRequests s"
  using assms by (simp_all add: summarize_chunk_def)

lemma summarize_chunk_texts:
  "engine s \<noteq> None \<and> isAborted rid s \<Longrightarrow>
     fst (summarize_chunk rid t now delta None summ s) = Inl ''Error: Request aborted''"
  "engine s \<noteq> None \<and> \<not> isAborted rid s \<and> now - t > CHUNK_TIMEOUT_MS \<Longrightarrow>
     fst (summarize_chunk rid t now delta None summ s) =
       Inl ''Error: Stream stalled - no chunk received for 30000ms''"
  by (auto simp: summarize_chunk_def interruptGenerate_def)

lemma streamingState_eval:
  "streamingState =
     \<lparr>engine = Some ''A'', os_isEngineInitializing = False, engineReady = True,
      os_currentModelId = ''A'', activeRequests = [(''req_1'', False)],
      effects = [ChatCreate True hello]\<rparr>"
  by (simp add: streamingState_def chatCompletionStream_begin_def notReady_def osReady_def
      register_def effect_def)

text \<open>
  Claim C10.  The three engine calls of the offscreen document (the completion, the
  streamed completion and the page summary) refuse a request while the engine is not
  ready, without touching the table of active requests.  With a ready engine each of
  them enters its request in the table, not aborted, in the step that issues the engine
  call.  Every outcome removes the entry: the completion resolved or rejected, and found
  aborted on return; the stream or the summary ended or thrown; and a chunk step on a
  request that is marked aborted, or whose chunk comes more than \<open>CHUNK_TIMEOUT_MS\<close>
  after the last one, which settles the call with an error (for the stream, a final error
  chunk to the background), whatever \<open>interruptGenerate\<close> does.  A chunk step on a request
  that is neither aborted nor stalled goes on and leaves the table as it was.
\<close>

theorem active_request_lifecycle:
  "(notReady s \<longrightarrow>
      chatCompletion_begin rid messages s = Inl ''Error: Engine not ready'' \<and>
      activeRequests (snd (chatCompletionStream_begin rid messages s)) = activeRequests s \<and>
      summarizePage_begin now title cont s = Inl ''Error: Engine not ready'') \<and>
   (engine s \<noteq> None \<and> engineReady s \<longrightarrow>
      (\<exists>s1. chatCompletion_begin rid messages s = Inr s1 \<and>
            map_of (activeRequests s1) rid = Some False \<and>
            effects s1 = effects s @ [ChatCreate False messages]) \<and>
      map_of (activeRequests (snd (chatCompletionStream_begin rid messages s))) rid = Some False \<and>
      effects (snd (chatCompletionStream_begin rid messages s)) =
        effects s @ [ChatCreate True messages] \<and>
      (\<exists>s1. summarizePage_begin now title cont s = Inr s1 \<and>
            map_of (activeRequests s1) (summarizeId now) = Some False \<and>
            effects s1 = effects s @ [ChatCreate True (summarizeMessages title cont)])) \<and>
   map_of (activeRequests (snd (chatCompletion_settle rid outcome s))) rid = None \<and>
   (isAborted rid s \<longrightarrow>
      fst (chatCompletion_settle rid (Completed c) s) = Inl ''Error: Request aborted'') \<and>
   map_of (activeRequests (stream_threw rid e s)) rid = None \<and>
   map_of (activeRequests (stream_end rid u s)) rid = None \<and>
   (isAborted rid s \<or> tnow - t > CHUNK_TIMEOUT_MS \<longrightarrow>
      fst (stream_chunk rid t tnow delta threw s) = None \<and>
      map_of (activeRequests (snd (stream_chunk rid t tnow delta threw s))) rid = None \<and>
      (\<exists>es x. effects (snd (stream_chunk rid t tnow delta threw s)) =
         es @ [SendMessage (STREAM_CHUNK (errorChunk rid x (Some True)))])) \<and>
   (engine s \<noteq> None \<and> isAborted rid s \<longrightarrow>
      effects (snd (stream_chunk rid t tnow delta None s)) =
        effects s @ [InterruptGenerate,
                     SendMessage (STREAM_CHUNK (errorChunk rid ''Request aborted'' (Some True)))]) \<and>
   (engine s \<noteq> None \<and> \<not> isAborted rid s \<and> tnow - t > CHUNK_TIMEOUT_MS \<longrightarrow>
      effects (snd (stream_chunk rid t tnow delta None s)) =
        effects s @ [InterruptGenerate,
                     SendMessage (STREAM_CHUNK (errorChunk rid
                       ''Error: Stream stalled - no chunk received for 30000ms'' (Some True)))]) \<and>
   (engine s = None \<and> (isAborted rid s \<or> tnow - t > CHUNK_TIMEOUT_MS) \<longrightarrow>
      effects (snd (stream_chunk rid t tnow delta threw s)) =
        effects s @ [SendMessage (STREAM_CHUNK (errorChunk rid NULL_ENGINE_ERROR (Some True)))]) \<and>
   (\<not> isAborted rid s \<and> tnow - t \<le> CHUNK_TIMEOUT_MS \<longrightarrow>
      fst (stream_chunk rid t tnow delta threw s) = Some tnow \<and>
      activeRequests (snd (stream_chunk rid t tnow delta threw s)) = activeRequests s) \<and>
   map_of (activeRequests (snd (summarize_threw rid e s))) rid = None \<and>
   map_of (activeRequests (snd (summarize_end rid summ s))) rid = None \<and>
   (isAborted rid s \<or> tnow - t > CHUNK_TIMEOUT_MS \<longrightarrow>
      (\<exists>x. fst (summarize_chunk rid t tnow delta threw summ s) = Inl x) \<and>
      map_of (activeRequests (snd (summarize_chunk rid t tnow delta threw summ s))) rid = None) \<and>
   (engine s \<noteq> None \<and> isAborted rid s \<longrightarrow>
      fst (summarize_chunk rid t tnow delta None summ s) = Inl ''Error: Request aborted'') \<and>
   (engine s \<noteq> None \<and> \<not> isAborted rid s \<and> tnow - t > CHUNK_TIMEOUT_MS \<longrightarrow>
      fst (summarize_chunk rid t tnow delta None summ s) =
        Inl ''Error: Stream stalled - no chunk received for 30000ms'') \<and>
   (\<not> isAborted rid s \<and> tnow - t \<le> CHUNK_TIMEOUT_MS \<longrightarrow>
      fst (summarize_chunk rid t tnow delta threw summ s) =
        Inr (tnow, if truthy delta then summ @ the delta else summ) \<and>
      activeRequests (snd (summarize_chunk rid t tnow delta threw summ s)) = activeRequests s)"
proof (intro conjI impI)
  assume n: "notReady s"
  then show "chatCompletion_begin rid messages s = Inl ''Error: Engine not ready''"
    by (simp add: chatCompletion_begin_def)
  from n show "activeRequests (snd (chatCompletionStream_begin rid messages s)) = activeRequests s"
    by (simp add: chatCompletionStream_begin_def)
  from n show "summarizePage_begin now title cont s = Inl ''Error: Engine not ready''"
    by (simp add: summarizePage_begin_def)
next
  assume "engine s \<noteq> None \<and> engineReady s"
  then have r: "\<not> notReady s" by (simp add: notReady_def)
  then show "\<exists>s1. chatCompletion_begin rid messages s = Inr s1 \<and>
            map_of (activeRequests s1) rid = Some False \<and>
            effects s1 = effects s @ [ChatCreate False messages]"
    by (simp add: chatCompletion_begin_def register_there) (simp add: register_def)
  from r show "map_of (activeRequests (snd (chatCompletionStream_begin rid messages s))) rid = Some False"
    by (simp add: chatCompletionStream_begin_def register_there)
  from r show "effects (snd (chatCompletionStream_begin rid messages s)) =
        effects s @ [ChatCreate True messages]"
    by (simp add: chatCompletionStream_begin_def register_def)
  from r show "\<exists>s1. summarizePage_begin now title cont s = Inr s1 \<and>
            map_of (activeRequests s1) (summarizeId now) = Some False \<and>
            effects s1 = effects s @ [ChatCreate True (summarizeMessages title cont)]"
    by (simp add: summarizePage_begin_def register_there) (simp add: register_def)
next
  show "map_of (activeRequests (snd (chatCompletion_settle rid outcome s))) rid = None"
    by (simp add: chatCompletion_settle_def unregister_gone)
  show "map_of (activeRequests (stream_threw rid e s)) rid = None"
    by (rule stream_threw_gone)
  show "map_of (activeRequests (stream_end rid u s)) rid = None"
    by (simp add: stream_end_def unregister_gone)
  show "map_of (activeRequests (snd (summarize_threw rid e s))) rid = None"
    by (simp add: summarize_threw_def unregister_gone)
  show "map_of (activeRequests (snd (summarize_end rid summ s))) rid = None"
    by (simp add: summarize_end_def unregister_gone)
next
  assume "isAborted rid s"
  then show "fst (chatCompletion_settle rid (Completed c) s) = Inl ''Error: Request aborted''"
    by (simp add: chatCompletion_settle_def)
next
  assume a: "isAborted rid s \<or> tnow - t > CHUNK_TIMEOUT_MS"
  show "fst (stream_chunk rid t tnow delta threw s) = None"
    by (rule stream_chunk_settles(1) [OF a])
  show "map_of (activeRequests (snd (stream_chunk rid t tnow delta threw s))) rid = None"
    by (rule stream_chunk_settles(2) [OF a])
  show "\<exists>es x. effects (snd (stream_chunk rid t tnow delta threw s)) =
         es @ [SendMessage (STREAM_CHUNK (errorChunk rid x (Some True)))]"
    by (rule stream_chunk_settles(3) [OF a])
  show "\<exists>x. fst (summarize_chunk rid t tnow delta threw summ s) = Inl x"
    by (rule summarize_chunk_settles(1) [OF a])
  show "map_of (activeRequests (snd (summarize_chunk rid t tnow delta threw summ s))) rid = None"
    by (rule summarize_chunk_settles(2) [OF a])
next
  assume "engine s \<noteq> None \<and> isAborted rid s"
  then show "effects (snd (stream_chunk rid t tnow delta None s)) =
        effects s @ [InterruptGenerate,
                     SendMessage (STREAM_CHUNK (errorChunk rid ''Request aborted'' (Some True)))]"
    by (rule stream_chunk_texts(1))
next
  assume "engine s \<noteq> None \<and> \<not> isAborted rid s \<and> tnow - t > CHUNK_TIMEOUT_MS"
  then show "effects (snd (stream_chunk rid t tnow delta None s)) =
        effects s @ [InterruptGenerate,
                     SendMessage (STREAM_CHUNK (errorChunk rid
                       ''Error: Stream stalled - no chunk received for 30000ms'' (Some True)))]"
    by (rule stream_chunk_texts(2))
next
  assume "engine s = None \<and> (isAborted rid s \<or> tnow - t > CHUNK_TIMEOUT_MS)"
  then show "effects (snd (stream_chunk rid t tnow delta threw s)) =
        effects s @ [SendMessage (STREAM_CHUNK (errorChunk rid NULL_ENGINE_ERROR (Some True)))]"
    by (rule stream_chunk_texts(3))
next
  assume a: "\<not> isAborted rid s \<and> tnow - t \<le> CHUNK_TIMEOUT_MS"
  then show "fst (stream_chunk rid t tnow delta threw s) = Some tnow"
    by (simp add: stream_chunk_goes_on)
  from a show "activeRequests (snd (stream_chunk rid t tnow delta threw s)) = activeRequests s"
    by (simp add: stream_chunk_goes_on)
  from a show "fst (summarize_chunk rid t tnow delta threw summ s) =
        Inr (tnow, if truthy delta then summ @ the delta else summ)"
    by (simp add: summarize_chunk_goes_on)
  from a show "activeRequests (snd (summarize_chunk rid t tnow delta threw summ s)) = activeRequests s"
    by (simp add: summarize_chunk_goes_on)
next
  assume "engine s \<noteq> None \<and> isAborted rid s"
  then show "fst (summarize_chunk rid t tnow delta None summ s) = Inl ''Error: Request aborted''"
    by (rule summarize_chunk_texts(1))
next
  assume "engine s \<noteq> None \<and> \<not> isAborted rid s \<and> tnow - t > CHUNK_TIMEOUT_MS"
  then show "fst (summarize_chunk rid t tnow delta None summ s) =
        Inl ''Error: Stream stalled - no chunk received for 30000ms''"
    by (rule summarize_chunk_texts(2))
qed

theorem active_request_lifecycle_witness:
  "notReady osCold \<and>
   chatCompletion_begin ''silent_1'' hello osCold = Inl ''Error: Engine not ready'' \<and>
   (engine osReady \<noteq> None \<and> engineReady osReady) \<and>
   map_of (activeRequests (snd (chatCompletionStream_begin ''req_1'' hello osReady))) ''req_1'' =
     Some False \<and>
   isAborted ''req_1'' (abortRequest ''req_1'' streamingState) \<and>
   fst (chatCompletion_settle ''req_1'' (Completed (Some ''Hi'')) (abortRequest ''req_1'' streamingState)) =
     Inl ''Error: Request aborted'' \<and>
   fst (stream_chunk ''req_1'' 0 5 (Some ''Hi'') None (abortRequest ''req_1'' streamingState)) = None \<and>
   map_of (activeRequests (snd (stream_chunk ''req_1'' 0 5 (Some ''Hi'') None
      (abortRequest ''req_1'' streamingState)))) ''req_1'' = None \<and>
   effects (snd (stream_chunk ''req_1'' 0 5 (Some ''Hi'') None (abortRequest ''req_1'' streamingState))) =
     [ChatCreate True hello, InterruptGenerate,
      SendMessage (STREAM_CHUNK (errorChunk ''req_1'' ''Request aborted'' (Some True)))] \<and>
   (40000::int) - 0 > CHUNK_TIMEOUT_MS \<and>
   fst (stream_chunk ''req_1'' 0 40000 (Some ''Hi'') None streamingState) = None \<and>
   map_of (activeRequests (snd (stream_chunk ''req_1'' 0 40000 (Some ''Hi'') None streamingState)))
     ''req_1'' = None \<and>
   effects (snd (stream_chunk ''req_1'' 0 40000 (Some ''Hi'') None streamingState)) =
     [ChatCreate True hello, InterruptGenerate,
      SendMessage (STREAM_CHUNK (errorChunk ''req_1''
        ''Error: Stream stalled - no chunk received for 30000ms'' (Some True)))] \<and>
   engine swapRun = None \<and>
   effects swapRunStalled =
     effects swapRun @ [SendMessage (STREAM_CHUNK (errorChunk ''req_1'' NULL_ENGINE_ERROR (Some True)))] \<and>
   fst (stream_chunk ''req_1'' 0 5 (Some ''Hi'') None streamingState) = Some 5 \<and>
   activeRequests (snd (stream_chunk ''req_1'' 0 5 (Some ''Hi'') None streamingState)) =
     activeRequests streamingState \<and>
   fst (summarize_chunk ''req_1'' 0 40000 (Some ''Hi'') None [] streamingState) =
     Inl ''Error: Stream stalled - no chunk received for 30000ms'' \<and>
   map_of (activeRequests (snd (summarize_chunk ''req_1'' 0 40000 (Some ''Hi'') None [] streamingState)))
     ''req_1'' = None \<and>
   fst (summarize_chunk ''req_1'' 0 5 (Some ''Hi'') None [] (abortRequest ''req_1'' streamingState)) =
     Inl ''Error: Request aborted'' \<and>
   fst (summarize_chunk ''req_1'' 0 5 (Some ''Hi'') None ''- '' streamingState) = Inr (5, ''- Hi'') \<and>
   activeRequests (snd (summarize_chunk ''req_1'' 0 5 (Some ''Hi'') None ''- '' streamingState)) =
     activeRequests streamingState"
proof -
  define sa where "sa = abortRequest ''req_1'' streamingState"
  have sa: "sa = streamingState\<lparr>activeRequests := [(''req_1'', True)]\<rparr>"
    by (simp add: sa_def abortRequest_def streamingState_eval)
  have h1: "notReady osCold" by (simp add: notReady_def osCold_def)
  have h2: "engine osReady \<noteq> None \<and> engineReady osReady" by (simp add: osReady_def)
  have ab: "isAborted ''req_1'' sa" by (simp add: isAborted_def sa)
  have en: "engine sa \<noteq> None" by (simp add: sa streamingState_eval)
  have nab: "\<not> isAborted ''req_1'' streamingState" by (simp add: isAborted_def streamingState_eval)
  have late: "(40000::int) - 0 > CHUNK_TIMEOUT_MS" by (simp add: CHUNK_TIMEOUT_MS_def)
  have soon: "(5::int) - 0 \<le> CHUNK_TIMEOUT_MS" by (simp add: CHUNK_TIMEOUT_MS_def)
  have e0: "effects sa = [ChatCreate True hello]" "effects streamingState = [ChatCreate True hello]"
    "engine streamingState \<noteq> None"
    by (simp_all add: sa streamingState_eval)
  have sw: "engine swapRun = None"
    by (simp add: swapRun_def initEngine_unloaded_def initEngine_create_def effect_def)
  note d1 = conjunct2
  note d2 = d1 [THEN conjunct2]
  note d3 = d2 [THEN conjunct2]
  note d4 = d3 [THEN conjunct2]
  note d5 = d4 [THEN conjunct2]
  note d6 = d5 [THEN conjunct2]
  note d7 = d6 [THEN conjunct2]
  note d8 = d7 [THEN conjunct2]
  note d9 = d8 [THEN conjunct2]
  note d10 = d9 [THEN conjunct2]
  note d13 = d10 [THEN conjunct2, THEN conjunct2, THEN conjunct2]
  note d14 = d13 [THEN conjunct2]
  note d15 = d14 [THEN conjunct2]
  note d16 = d15 [THEN conjunct2]
  note w1 = active_request_lifecycle [where s = osCold and rid = "''silent_1''" and messages = hello,
      THEN conjunct1, THEN mp, OF h1, THEN conjunct1]
  note w2 = active_request_lifecycle [where s = osReady and rid = "''req_1''" and messages = hello,
      THEN d1, THEN conjunct1, THEN mp, OF h2, THEN conjunct2, THEN conjunct1]
  note w3 = active_request_lifecycle [where s = sa and rid = "''req_1''" and c = "Some ''Hi''",
      THEN d3, THEN conjunct1, THEN mp, OF ab]
  note A = active_request_lifecycle [where s = sa and rid = "''req_1''" and t = 0 and tnow = 5
      and delta = "Some ''Hi''" and threw = None and summ = "[]"]
  note A7 = A [THEN d6, THEN conjunct1, THEN mp, OF disjI1, OF ab]
  note w4 = A7 [THEN conjunct1]
  note w5 = A7 [THEN conjunct2, THEN conjunct1]
  note w6 = A [THEN d7, THEN conjunct1, THEN mp, OF conjI, OF en ab, unfolded e0 append.simps]
  note w7 = A [THEN d14, THEN conjunct1, THEN mp, OF conjI, OF en ab]
  note B = active_request_lifecycle [where s = streamingState and rid = "''req_1''" and t = 0
      and tnow = 40000 and delta = "Some ''Hi''" and threw = None and summ = "[]"]
  note B7 = B [THEN d6, THEN conjunct1, THEN mp, OF disjI2, OF late]
  note w8 = B7 [THEN conjunct1]
  note w9 = B7 [THEN conjunct2, THEN conjunct1]
  note st = conjI [OF e0(3) conjI [OF nab late]]
  note w10 = B [THEN d8, THEN conjunct1, THEN mp, OF st, unfolded e0 append.simps]
  note w11 = B [THEN d15, THEN conjunct1, THEN mp, OF st]
  note w12 = B [THEN d13, THEN conjunct1, THEN mp, OF disjI2, OF late, THEN conjunct2]
  note w13 = active_request_lifecycle [where s = swapRun and rid = "''req_1''" and t = 0
      and tnow = 40000 and delta = "Some ''Hi''" and threw = None,
      THEN d9, THEN conjunct1, THEN mp, OF conjI, OF sw disjI2, OF late, folded swapRunStalled_def]
  note C = active_request_lifecycle [where s = streamingState and rid = "''req_1''" and t = 0
      and tnow = 5 and delta = "Some ''Hi''" and threw = None and summ = "''- ''"]
  note on = conjI [OF nab soon]
  note C11 = C [THEN d10, THEN conjunct1, THEN mp, OF on]
  note w14 = C11 [THEN conjunct1]
  note w15 = C11 [THEN conjunct2]
  note C17 = C [THEN d16, THEN mp, OF on]
  have w16: "fst (summarize_chunk ''req_1'' 0 5 (Some ''Hi'') None ''- '' streamingState) =
     Inr (5, ''- Hi'')"
    using C17 [THEN conjunct1] by simp
  note w17 = C17 [THEN conjunct2]
  from h1 w1 h2 w2 ab w3 w4 w5 w6 late w8 w9 w10 sw w13 w14 w15 w11 w12 w7 w16 w17
  show ?thesis unfolding sa_def by (intro conjI) (assumption | (elim conjE, assumption))+
qed

section \<open>Properties of the model swap\<close>

lemma swap_begin:
  assumes "engine s \<noteq> None" and "os_currentModelId s \<noteq> m"
  shows "initEngine_begin (Some m) s = (OsAwaitUnload, effect Unload (s\<lparr>activeRequests := []\<rparr>))"
  using assms by (simp add: initEngine_begin_def clear_def)

lemma unloaded_fields:
  "fst (initEngine_unloaded m s) = OsAwaitCreate"
  "effects (snd (initEngine_unloaded m s)) = effects s @ [CreateMLCEngine m]"
  "engine (snd (initEngine_unloaded m s)) = None"
  "engineReady (snd (initEngine_unloaded m s)) = False"
  "os_isEngineInitializing (snd (initEngine_unloaded m s)) = True"
  "os_currentModelId (snd (initEngine_unloaded m s)) = m"
  "activeRequests (snd (initEngine_unloaded m s)) = activeRequests s"
  by (simp_all add: initEngine_unloaded_def initEngine_create_def effect_def)

text \<open>
  For every state with an engine for another model: the swap branch empties the table in
  the step that starts the unload, so that no request reads as aborted afterwards, and
  that step sends nothing.
\<close>

lemma swap_forgets_requests:
  assumes "engine s \<noteq> None" and "os_currentModelId s \<noteq> m"
  shows "fst (initEngine_begin (Some m) s) = OsAwaitUnload"
    and "activeRequests (snd (initEngine_begin (Some m) s)) = []"
    and "\<not> isAborted rid (snd (initEngine_begin (Some m) s))"
    and "effects (snd (initEngine_begin (Some m) s)) = effects s @ [Unload]"
    and "effects (snd (initEngine_unloaded m (snd (initEngine_begin (Some m) s)))) =
           effects s @ [Unload, CreateMLCEngine m]"
  by (simp_all add: swap_begin [OF assms] unloaded_fields isAborted_def)

lemma swapRun_effects: "effects swapRun = [ChatCreate True hello, Unload, CreateMLCEngine ''B'']"
  by (simp add: swapRun_def streamingState_eval initEngine_begin_def clear_def effect_def
      unloaded_fields)

lemma swapRunChunk_effects:
  "effects swapRunChunk =
     [ChatCreate True hello, Unload,
      SendMessage (STREAM_CHUNK \<lparr>requestId = ''req_1'', chunk = Some ''Hi'', chunk_done = None,
                                 chunk_error = None, usage = None\<rparr>),
      CreateMLCEngine ''B'']"
  by (simp add: swapRunChunk_def streamingState_eval initEngine_begin_def clear_def effect_def
      unloaded_fields stream_chunk_def isAborted_def CHUNK_TIMEOUT_MS_def truthy_def)

lemma swapRunStalled_effects:
  "effects swapRunStalled =
     [ChatCreate True hello, Unload, CreateMLCEngine ''B'',
      SendMessage (STREAM_CHUNK (errorChunk ''req_1'' NULL_ENGINE_ERROR (Some True)))]"
proof -
  have "engine swapRun = None"
    by (simp add: swapRun_def initEngine_unloaded_def initEngine_create_def effect_def)
  then show ?thesis
    unfolding swapRunStalled_def
    by (simp add: stream_chunk_texts(3) CHUNK_TIMEOUT_MS_def swapRun_effects)
qed

text \<open>
  Claim C1 on a stream that is active when another model is requested.  With the stream
  \<open>req_1\<close> registered under model A, \<open>INIT_ENGINE\<close> for model B marks the request and
  empties the table in the same step, so the mark cannot be read: the request does not
  read as aborted, nothing is sent for it, and the build of B begins with no final chunk
  for \<open>req_1\<close> before it.  A chunk of the old stream that arrives during the unload is
  forwarded as an ordinary chunk; one that arrives late after the unload ends the stream
  with the \<open>TypeError\<close> of the null engine, after the build has begun.  On the sibling
  path \<open>abortRequest\<close>, which keeps the entry, the next chunk step interrupts the engine
  and sends the final chunk \<open>Request aborted\<close>.
\<close>

theorem model_swap_drops_cancellation:
  "map_of (activeRequests streamingState) ''req_1'' = Some False \<and>
   os_currentModelId streamingState = ''A'' \<and>
   fst (initEngine_begin (Some ''B'') streamingState) = OsAwaitUnload \<and>
   activeRequests (snd (initEngine_begin (Some ''B'') streamingState)) = [] \<and>
   isAborted ''req_1'' (snd (initEngine_begin (Some ''B'') streamingState)) = False \<and>
   effects swapRun = [ChatCreate True hello, Unload, CreateMLCEngine ''B''] \<and>
   notifiedBeforeBuild ''req_1'' ''B'' (effects swapRun) = False \<and>
   effects swapRunChunk =
     [ChatCreate True hello, Unload,
      SendMessage (STREAM_CHUNK \<lparr>requestId = ''req_1'', chunk = Some ''Hi'', chunk_done = None,
                                 chunk_error = None, usage = None\<rparr>),
      CreateMLCEngine ''B''] \<and>
   notifiedBeforeBuild ''req_1'' ''B'' (effects swapRunChunk) = False \<and>
   effects swapRunStalled =
     [ChatCreate True hello, Unload, CreateMLCEngine ''B'',
      SendMessage (STREAM_CHUNK (errorChunk ''req_1'' NULL_ENGINE_ERROR (Some True)))] \<and>
   notifiedBeforeBuild ''req_1'' ''B'' (effects swapRunStalled) = False \<and>
   effects (snd (stream_chunk ''req_1'' 0 5 (Some ''Hi'') None
      (abortRequest ''req_1'' streamingState))) =
     [ChatCreate True hello, InterruptGenerate,
      SendMessage (STREAM_CHUNK (errorChunk ''req_1'' ''Request aborted'' (Some True)))]"
proof -
  have e: "engine streamingState \<noteq> None" "os_currentModelId streamingState \<noteq> ''B''"
    by (simp_all add: streamingState_eval)
  have a: "engine (abortRequest ''req_1'' streamingState) \<noteq> None \<and>
           isAborted ''req_1'' (abortRequest ''req_1'' streamingState)"
    by (simp add: abortRequest_def streamingState_eval isAborted_def)
  have "effects (abortRequest ''req_1'' streamingState) = [ChatCreate True hello]"
    by (simp add: abortRequest_def streamingState_eval)
  with stream_chunk_texts(1) [OF a, of 0 5 "Some ''Hi''"]
  have s: "effects (snd (stream_chunk ''req_1'' 0 5 (Some ''Hi'') None
      (abortRequest ''req_1'' streamingState))) =
     [ChatCreate True hello, InterruptGenerate,
      SendMessage (STREAM_CHUNK (errorChunk ''req_1'' ''Request aborted'' (Some True)))]"
    by simp
  show ?thesis
    by (simp add: swap_forgets_requests [OF e] swapRun_effects swapRunChunk_effects
        swapRunStalled_effects s terminal_def truthy_def)
      (simp add: streamingState_eval)
qed

text \<open>Without a loaded engine the second of two calls for the same model starts no build.\<close>

lemma cold_init_once:
  assumes "engine s = None"
  shows "initEngine_begin (Some m) (snd (initEngine_begin (Some m) s)) =
           (OsReturn ''initializing'' None, snd (initEngine_begin (Some m) s))"
    and "builds m (effects (snd (initEngine_begin (Some m) s))) \<le> builds m (effects s) + 1"
  using assms
  by (simp_all add: initEngine_begin_def initEngine_create_def effect_def builds_def)

text \<open>
  Claim C2 on a loaded engine.  With model A loaded and ready, a request for model B
  awaits the unload of A before it sets the initializing flag and the model id.  A second
  request for B that arrives during that unload finds the flag and the id unchanged, takes
  the same branch, and after the two unloads each request starts a build of B: two builds,
  and the second request is not answered \<open>initializing\<close>.
\<close>

theorem double_init_builds_twice:
  "fst (initEngine_begin (Some ''B'') osReady) = OsAwaitUnload \<and>
   fst (initEngine_begin (Some ''B'') (snd (initEngine_begin (Some ''B'') osReady))) = OsAwaitUnload \<and>
   effects doubleSwapRun = [Unload, Unload, CreateMLCEngine ''B'', CreateMLCEngine ''B''] \<and>
   builds ''B'' (effects doubleSwapRun) = 2"
  by (simp add: doubleSwapRun_def osReady_def initEngine_begin_def clear_def effect_def
      unloaded_fields builds_def markAllAborted_def)

section \<open>Properties of the streaming multiplexer\<close>

lemma registerStream_entry:
  "map_of (streamPorts (registerStream p rid messages s)) rid = Some p"
  by (simp add: registerStream_def send_def update_conv)

lemma onStreamChunk_terminal:
  "terminal c \<Longrightarrow> map_of (streamPorts (onStreamChunk c s)) (requestId c) = None"
  by (cases "map_of (streamPorts s) (requestId c)")
     (simp_all add: onStreamChunk_def postMessage_def delete_conv Let_def)

lemma onStreamChunk_running:
  "\<not> terminal c \<Longrightarrow> streamPorts (onStreamChunk c s) = streamPorts s"
  by (cases "map_of (streamPorts s) (requestId c)")
     (simp_all add: onStreamChunk_def postMessage_def Let_def)

lemma onStreamChunk_posts:
  "map_of (streamPorts s) (requestId c) = Some p \<Longrightarrow>
   log (onStreamChunk c s) = log s @ [Posted p (ChunkMessage c)]"
  by (simp add: onStreamChunk_def postMessage_def Let_def)

lemma onStreamChunk_unknown:
  "map_of (streamPorts s) (requestId c) = None \<Longrightarrow> onStreamChunk c s = s"
  by (simp add: onStreamChunk_def)

lemma onDisconnect_removes: "(rid, p) \<notin> set (streamPorts (onDisconnect p s))"
  by (simp add: onDisconnect_def abortAll_def)

lemma onDisconnect_aborts:
  "(rid, p) \<in> set (streamPorts s) \<Longrightarrow> Sent (ABORT_REQUEST rid) \<in> set (log (onDisconnect p s))"
  by (force simp: onDisconnect_def abortAll_def)

lemma onStreamStartReply_error:
  "onStreamStartReply p rid (StreamLastError e) s = s' \<Longrightarrow> map_of (streamPorts s') rid = None"
  by (auto simp: onStreamStartReply_def postMessage_def delete_conv)

lemma lateRegistration_eval:
  "fst (chatStreamStart_begin 7 ''req_1'' hello coldState) =
     StreamAwaitInit (InitAwaitProvision ''Qwen3-1.7B-q4f16_1-MLC'')"
  "streamPorts lateRegistration = [(''req_1'', 7)]"
  "log lateRegistration =
     [Posted 7 (StatusMessage ''initializing''), Sent (INIT_ENGINE ''Qwen3-1.7B-q4f16_1-MLC''),
      Disconnected 7, Sent (CHAT_COMPLETION_STREAM ''req_1'' hello)]"
  by (simp_all add: lateRegistration_def coldState_def initialState_def
      chatStreamStart_begin_def initializeEngine_begin_def truthy_def postMessage_def
      initializeEngine_provisioned_def ensureOffscreenDocument_def send_def onDisconnect_def
      abortAll_def onEngineReady_def processSummarizationQueue_def chatStreamStart_resume_def
      initializeEngine_reply_def registerStream_def)

text \<open>
  Claim C7 on a stream started while the engine is not ready.  The start handler posts
  the status \<open>initializing\<close> and awaits the initialization; the port is entered in the
  table only after that.  When the port closes during the await, its disconnect handler
  finds no entry and sends no abort; after the engine has become ready the handler enters
  the closed port, requests the stream, and the next chunk of the request is posted to
  the closed port, whose entry stays in the table.
\<close>

theorem late_registration_forwards_to_closed:
  "fst (chatStreamStart_begin 7 ''req_1'' hello coldState) =
     StreamAwaitInit (InitAwaitProvision ''Qwen3-1.7B-q4f16_1-MLC'') \<and>
   map_of (streamPorts lateRegistration) ''req_1'' = Some 7 \<and>
   log (onStreamChunk hiChunk lateRegistration) =
     [Posted 7 (StatusMessage ''initializing''), Sent (INIT_ENGINE ''Qwen3-1.7B-q4f16_1-MLC''),
      Disconnected 7, Sent (CHAT_COMPLETION_STREAM ''req_1'' hello),
      Posted 7 (ChunkMessage hiChunk)] \<and>
   postsAfterClose (log (onStreamChunk hiChunk lateRegistration)) [] \<and>
   map_of (streamPorts (onStreamChunk hiChunk lateRegistration)) ''req_1'' = Some 7"
proof -
  have m: "map_of (streamPorts lateRegistration) (requestId hiChunk) = Some 7"
    by (simp add: lateRegistration_eval hiChunk_def)
  have nt: "\<not> terminal hiChunk" by (simp add: terminal_def hiChunk_def truthy_def)
  from onStreamChunk_posts [OF m] onStreamChunk_running [OF nt, of lateRegistration]
  show ?thesis by (simp add: lateRegistration_eval)
qed

lemma double_change_model:
  "fst (onChangeModel (Some ''B'') readyState) = Some (InitAwaitProvision ''B'')"
  "fst (onChangeModel (Some ''B'') (changeModelOnce readyState)) = Some (InitAwaitProvision ''B'')"
  "log (changeModelOnce (changeModelOnce readyState)) =
     [Sent (INIT_ENGINE ''B''), Sent (INIT_ENGINE ''B'')]"
  by (simp_all add: changeModelOnce_def onChangeModel_def readyState_def initialState_def
      truthy_def initializeEngine_begin_def initializeEngine_provisioned_def
      ensureOffscreenDocument_def send_def)

end
